theory Spec2Isabelle
  imports Main "HOL-Library.AList" "HOL-Library.Multiset"
begin

section \<open>Cards (cardTypes/index.js, cardSwapping/index.js)\<close>

text \<open>
  The four suit names of \<^verbatim>\<open>suits\<close> and the thirteen rank names of \<^verbatim>\<open>ranks\<close>
  (\<^verbatim>\<open>"A"\<close>, \<^verbatim>\<open>"2"\<close> .. \<^verbatim>\<open>"10"\<close>, \<^verbatim>\<open>"J"\<close>, \<^verbatim>\<open>"Q"\<close>, \<^verbatim>\<open>"K"\<close>).
  The clubs suit is called \<^verbatim>\<open>"flowers"\<close> in the source.
\<close>

datatype suit = hearts | diamonds | flowers | spades

datatype rank = Ace | Two | Three | Four | Five | Six | Seven | Eight | Nine | Ten
  | Jack | Queen | King

text \<open>The one-character suit symbols returned by \<^verbatim>\<open>getSuitSymbol(suit).symbol\<close>.\<close>

datatype symbol = HeartSym | DiamondSym | ClubSym | SpadeSym

fun getSuitSymbol :: "suit \<Rightarrow> symbol" where
  "getSuitSymbol hearts = HeartSym"
| "getSuitSymbol diamonds = DiamondSym"
| "getSuitSymbol flowers = ClubSym"
| "getSuitSymbol spades = SpadeSym"

fun rankOrder :: "rank \<Rightarrow> int" where
  "rankOrder Ace = 11"
| "rankOrder Two = 2"
| "rankOrder Three = 3"
| "rankOrder Four = 4"
| "rankOrder Five = 5"
| "rankOrder Six = 6"
| "rankOrder Seven = 7"
| "rankOrder Eight = 8"
| "rankOrder Nine = 9"
| "rankOrder Ten = 10"
| "rankOrder Jack = 10"
| "rankOrder Queen = 10"
| "rankOrder King = 10"

text \<open>
  \<^verbatim>\<open>Card(suitSymbol, suit, rank, id)\<close>. The property \<^verbatim>\<open>visible\<close> is absent on a new
  card (so \<^verbatim>\<open>card.visible === true\<close> is false) and is set to \<^verbatim>\<open>true\<close> on the cards dealt
  to Player 1.
\<close>

record card =
  suitSymbol :: symbol
  suit :: suit
  rank :: rank
  card_id :: nat
  visible :: bool

definition Card :: "symbol \<Rightarrow> suit \<Rightarrow> rank \<Rightarrow> nat \<Rightarrow> card" where
  "Card sy s r i = \<lparr>suitSymbol = sy, suit = s, rank = r, card_id = i, visible = False\<rparr>"

text \<open>The symbol and the point value the scoring code reads off a card.\<close>

definition symbolOf :: "card \<Rightarrow> symbol" where
  "symbolOf c = getSuitSymbol (suit c)"

definition valueOf :: "card \<Rightarrow> int" where
  "valueOf c = rankOrder (rank c)"

section \<open>Sorting as \<^verbatim>\<open>Array.prototype.sort\<close> does\<close>

text \<open>
  \<^verbatim>\<open>Array.prototype.sort\<close> with a comparator is a stable sort. Every comparator of this
  program is a difference of integer keys, so the result is the stable sort by that
  comparator: an element goes before the first element it does not compare greater than.
\<close>

fun insert_by :: "('a \<Rightarrow> 'a \<Rightarrow> int) \<Rightarrow> 'a \<Rightarrow> 'a list \<Rightarrow> 'a list" where
  "insert_by cmp x [] = [x]"
| "insert_by cmp x (y # ys) = (if cmp x y \<le> 0 then x # y # ys else y # insert_by cmp x ys)"

definition js_sort :: "('a \<Rightarrow> 'a \<Rightarrow> int) \<Rightarrow> 'a list \<Rightarrow> 'a list" where
  "js_sort cmp xs = foldr (insert_by cmp) xs []"

text \<open>\<^verbatim>\<open>getSortedCards\<close>: ascending by rank value.\<close>

definition getSortedCards :: "card list \<Rightarrow> card list" where
  "getSortedCards cs = js_sort (\<lambda>a b. rankOrder (rank a) - rankOrder (rank b)) cs"

section \<open>Scoring (AIPlayer.calculatePointsBySuit, PointsCalculator)\<close>

text \<open>
  A JavaScript object with string keys keeps its keys in insertion order; it is an
  association list here, and \<^const>\<open>AList.update\<close> overwrites a key in place or appends a
  new one at the end, as an assignment \<^verbatim>\<open>acc[k] = v\<close> does.
\<close>

type_synonym points = "(symbol \<times> int) list"

text \<open>
  One step of the \<^verbatim>\<open>reduce\<close>: \<^verbatim>\<open>if (!acc[s]) acc[s] = 0; acc[s] += rankValue\<close>.
  \<^verbatim>\<open>!acc[s]\<close> holds for a missing key and for the value 0.
\<close>

definition addPoints :: "points \<Rightarrow> card \<Rightarrow> points" where
  "addPoints acc c =
     (let s = getSuitSymbol (suit c);
          rankValue = rankOrder (rank c);
          acc1 = (case map_of acc s of
                    None \<Rightarrow> AList.update s 0 acc
                  | Some p \<Rightarrow> if p = 0 then AList.update s 0 acc else acc)
      in AList.update s ((case map_of acc1 s of None \<Rightarrow> 0 | Some p \<Rightarrow> p) + rankValue) acc1)"

definition calculatePointsBySuit :: "card list \<Rightarrow> points" where
  "calculatePointsBySuit hand = foldl addPoints [] hand"

text \<open>
  A JavaScript number as this program meets it: an integer, or \<^verbatim>\<open>-Infinity\<close>, the value
  of \<^verbatim>\<open>Math.max()\<close> with no argument.
\<close>

datatype number = NegInfinity | Num int

fun math_max :: "int list \<Rightarrow> number" where
  "math_max [] = NegInfinity"
| "math_max (x # xs) = (case math_max xs of NegInfinity \<Rightarrow> Num x | Num m \<Rightarrow> Num (max x m))"

text \<open>\<^verbatim>\<open>a >= b\<close> and \<^verbatim>\<open>a + n\<close> on such numbers.\<close>

fun num_ge :: "number \<Rightarrow> number \<Rightarrow> bool" where
  "num_ge (Num a) (Num b) = (a \<ge> b)"
| "num_ge _ NegInfinity = True"
| "num_ge NegInfinity (Num b) = False"

fun num_add :: "number \<Rightarrow> int \<Rightarrow> number" where
  "num_add (Num a) n = Num (a + n)"
| "num_add NegInfinity n = NegInfinity"

text \<open>
  \<^verbatim>\<open>PointsCalculator\<close>: the two stored scores (both 0 after the constructor).
  \<^verbatim>\<open>updateTotalPoints\<close> and \<^verbatim>\<open>updatePlayer2TotalPoints\<close> read the cards of a hand
  container; on an empty hand they only reset the displayed text and return, on any other
  they sort the cards, sum by suit and store the greatest sum.
\<close>

record PointsCalculator =
  player1points :: number
  player2points :: number

definition new_PointsCalculator :: PointsCalculator where
  "new_PointsCalculator = \<lparr>player1points = Num 0, player2points = Num 0\<rparr>"

definition updateTotalPoints :: "card list \<Rightarrow> PointsCalculator \<Rightarrow> PointsCalculator" where
  "updateTotalPoints player1Hand pc =
     (if player1Hand = [] then pc
      else let sortedHand = getSortedCards player1Hand;
               pointsBySuit = foldl addPoints [] sortedHand;
               points = map snd pointsBySuit
           in pc\<lparr>player1points := math_max points\<rparr>)"

definition updatePlayer2TotalPoints :: "card list \<Rightarrow> PointsCalculator \<Rightarrow> PointsCalculator" where
  "updatePlayer2TotalPoints player2Hand pc =
     (if player2Hand = [] then pc
      else let sortedHand = getSortedCards player2Hand;
               pointsBySuit = foldl addPoints [] sortedHand;
               points = map snd pointsBySuit
           in pc\<lparr>player2points := math_max points\<rparr>)"

text \<open>
  The best-suit score as \<^verbatim>\<open>AIPlayer.shouldKnock\<close> computes it:
  \<^verbatim>\<open>Math.max(...Object.values(this.calculatePointsBySuit(hand)))\<close>.
\<close>

definition maxPoints :: "card list \<Rightarrow> number" where
  "maxPoints hand = math_max (map snd (calculatePointsBySuit hand))"

text \<open>The sum of the rank values of the cards of one suit symbol in a hand.\<close>

definition suitTotal :: "symbol \<Rightarrow> card list \<Rightarrow> int" where
  "suitTotal s hand = sum_list (map valueOf (filter (\<lambda>c. symbolOf c = s) hand))"

text \<open>
  The best-suit score in the words of the specification: the greatest of the per-suit
  sums of a hand, and 0 for the empty hand.
\<close>

definition bestScore :: "card list \<Rightarrow> int" where
  "bestScore hand =
     (if hand = [] then 0 else Max ((\<lambda>s. suitTotal s hand) ` symbolOf ` set hand))"

text \<open>Abbreviations for the cards of the examples.\<close>

definition mkCard :: "suit \<Rightarrow> rank \<Rightarrow> card" where
  "mkCard s r = Card (getSuitSymbol s) s r (length (takeWhile (\<lambda>x. x \<noteq> r)
     [Ace, Two, Three, Four, Five, Six, Seven, Eight, Nine, Ten, Jack, Queen, King]))"

section \<open>The discard choice (AIPlayer.selectCardToDiscard)\<close>

text \<open>
  The source throws nothing itself; the only failure a call can meet is the
  \<^verbatim>\<open>TypeError\<close> of reading a property of \<^verbatim>\<open>undefined\<close>. A value returned by
  \<^verbatim>\<open>selectCardToDiscard\<close> is a number, or \<^verbatim>\<open>undefined\<close> when it was read past the
  end of an array.
\<close>

datatype error = TypeError

datatype jsindex = Undefined | Index int

text \<open>\<^verbatim>\<open>xs[i]\<close>: the element, or \<^verbatim>\<open>undefined\<close> (here \<open>None\<close>) out of range.\<close>

definition nth_opt :: "'a list \<Rightarrow> nat \<Rightarrow> 'a option" where
  "nth_opt xs i = (if i < length xs then Some (xs ! i) else None)"

text \<open>One entry of \<^verbatim>\<open>suitGroups\<close>: \<^verbatim>\<open>{ cards, totalValue, indices }\<close>.\<close>

record suitGroup =
  cards :: "card list"
  totalValue :: int
  indices :: "nat list"

type_synonym groups = "(symbol \<times> suitGroup) list"

text \<open>
  The body of the \<^verbatim>\<open>hand.forEach((card, index) => ...)\<close> that fills \<^verbatim>\<open>suitGroups\<close>:
  a missing key gets an empty group first, then the card, its value and its index are
  added to the group of its suit.
\<close>

definition addToGroup :: "groups \<Rightarrow> card \<times> nat \<Rightarrow> groups" where
  "addToGroup suitGroups ci =
     (let crd = fst ci; index = snd ci;
          sy = getSuitSymbol (suit crd);
          g = (case map_of suitGroups sy of
                 None \<Rightarrow> \<lparr>cards = [], totalValue = 0, indices = []\<rparr>
               | Some g0 \<Rightarrow> g0)
      in AList.update sy
           \<lparr>cards = cards g @ [crd],
            totalValue = totalValue g + rankOrder (rank crd),
            indices = indices g @ [index]\<rparr> suitGroups)"

definition groupBySuit :: "card list \<Rightarrow> groups" where
  "groupBySuit hand = foldl addToGroup [] (zip hand [0..<length hand])"

text \<open>The three comparators handed to \<^verbatim>\<open>sort\<close>.\<close>

definition byTotalDesc :: "symbol \<times> suitGroup \<Rightarrow> symbol \<times> suitGroup \<Rightarrow> int" where
  "byTotalDesc a b = totalValue (snd b) - totalValue (snd a)"

definition byCountThenTotalDesc :: "symbol \<times> suitGroup \<Rightarrow> symbol \<times> suitGroup \<Rightarrow> int" where
  "byCountThenTotalDesc a b =
     (if length (cards (snd a)) \<noteq> length (cards (snd b))
      then int (length (cards (snd b))) - int (length (cards (snd a)))
      else totalValue (snd b) - totalValue (snd a))"

definition byRankAsc :: "card \<times> nat \<Rightarrow> card \<times> nat \<Rightarrow> int" where
  "byRankAsc a b = rankOrder (rank (fst a)) - rankOrder (rank (fst b))"

text \<open>
  Step 1. With a suit of three or more cards: the suit of greatest total among those,
  \<^verbatim>\<open>strongSuits.sort(...)[0][0]\<close>, is kept, and the answer is the index of the first
  card of least value among the cards of the other suits. \<open>None\<close> when the step does not
  return (no such suit, or no card outside it).
\<close>

definition strongestSuit :: "groups \<Rightarrow> symbol option" where
  "strongestSuit suitGroups =
     (case js_sort byTotalDesc (filter (\<lambda>sg. length (cards (snd sg)) \<ge> 3) suitGroups) of
        [] \<Rightarrow> None
      | sg # _ \<Rightarrow> Some (fst sg))"

definition discardOutsideStrongest :: "card list \<Rightarrow> groups \<Rightarrow> nat option" where
  "discardOutsideStrongest hand suitGroups =
     (case strongestSuit suitGroups of
        None \<Rightarrow> None
      | Some strongest \<Rightarrow>
          (let cardsInWeakSuits =
                 filter (\<lambda>item. getSuitSymbol (suit (fst item)) \<noteq> strongest)
                   (zip hand [0..<length hand])
           in case js_sort byRankAsc cardsInWeakSuits of
                [] \<Rightarrow> None
              | item # _ \<Rightarrow> Some (snd item)))"

text \<open>
  Step 2, the two nested \<^verbatim>\<open>forEach\<close> loops over the cards of the other suits. The
  state is \<^verbatim>\<open>lowestValue\<close> (\<open>None\<close> is \<^verbatim>\<open>Infinity\<close>) and \<^verbatim>\<open>lowestIndex\<close>.
\<close>

definition lowerCard :: "suitGroup \<Rightarrow> int option \<times> jsindex \<Rightarrow> nat \<Rightarrow> int option \<times> jsindex" where
  "lowerCard g st i =
     (let v = rankOrder (rank (cards g ! i));
          smaller = (case fst st of None \<Rightarrow> True | Some lowestValue \<Rightarrow> v < lowestValue)
      in if smaller
         then (Some v, (case nth_opt (indices g) i of None \<Rightarrow> Undefined | Some k \<Rightarrow> Index (int k)))
         else st)"

definition lowestOfGroup :: "int option \<times> jsindex \<Rightarrow> suitGroup \<Rightarrow> int option \<times> jsindex" where
  "lowestOfGroup st g = foldl (lowerCard g) st [0..<length (cards g)]"

definition lowestOfOthers :: "suitGroup list \<Rightarrow> int option \<times> jsindex" where
  "lowestOfOthers gs = foldl lowestOfGroup (None, Index (- 1)) gs"

text \<open>
  \<^verbatim>\<open>suitValues\<close> pairs each key with its own group, so \<^verbatim>\<open>suitGroups[bestSuit]\<close> is the
  second component of \<^verbatim>\<open>suitValues[0]\<close>. \<open>None\<close> when step 2 does not return.
\<close>

definition discardOutsideBestTwo :: "groups \<Rightarrow> groups \<Rightarrow> jsindex option" where
  "discardOutsideBestTwo suitGroups suitValues =
     (case suitValues of
        best # second # _ \<Rightarrow>
          (let bestSuit = fst best; secondBestSuit = fst second;
               valueDifference = totalValue (snd best) - totalValue (snd second)
           in if valueDifference \<le> 5 \<and> length (cards (snd second)) \<ge> 2
              then (let otherSuits =
                          filter (\<lambda>sg. fst sg \<noteq> bestSuit \<and> fst sg \<noteq> secondBestSuit) suitGroups
                    in if otherSuits \<noteq> []
                       then (let lowestIndex = snd (lowestOfOthers (map snd otherSuits))
                             in if lowestIndex \<noteq> Index (- 1) then Some lowestIndex else None)
                       else None)
              else None)
      | _ \<Rightarrow> None)"

text \<open>
  Step 3, the \<^verbatim>\<open>for\<close> loop over the cards of the weakest suit, from \<^verbatim>\<open>i = 1\<close>. The state
  is \<^verbatim>\<open>lowestValueIndex\<close> and \<^verbatim>\<open>lowestValue\<close>.
\<close>

definition lowerAt :: "card list \<Rightarrow> nat \<times> int \<Rightarrow> nat \<Rightarrow> nat \<times> int" where
  "lowerAt weakSuitCards st i =
     (let cardValue = rankOrder (rank (weakSuitCards ! i))
      in if cardValue < snd st then (i, cardValue) else st)"

definition discardFromWeakest :: "groups \<Rightarrow> error + jsindex" where
  "discardFromWeakest suitValues =
     (if suitValues = [] then Inl TypeError
      else let weakest = snd (last suitValues);
               weakSuitCards = cards weakest;
               weakSuitIndices = indices weakest
           in case weakSuitCards of
                [] \<Rightarrow> Inl TypeError
              | c0 # _ \<Rightarrow>
                  (let lowestValueIndex =
                         fst (foldl (lowerAt weakSuitCards) (0, rankOrder (rank c0))
                                [1..<length weakSuitCards])
                   in case nth_opt weakSuitIndices lowestValueIndex of
                        None \<Rightarrow> Inr Undefined
                      | Some k \<Rightarrow> Inr (Index (int k))))"

definition selectCardToDiscard :: "card list \<Rightarrow> error + jsindex" where
  "selectCardToDiscard hand =
     (if hand = [] then Inr (Index (- 1))
      else let suitGroups = groupBySuit hand
           in case discardOutsideStrongest hand suitGroups of
                Some i \<Rightarrow> Inr (Index (int i))
              | None \<Rightarrow>
                  (let suitValues = js_sort byCountThenTotalDesc suitGroups
                   in case discardOutsideBestTwo suitGroups suitValues of
                        Some r \<Rightarrow> Inr r
                      | None \<Rightarrow> discardFromWeakest suitValues))"

section \<open>The deck (Deck.js)\<close>

text \<open>
  The constructor builds \<^verbatim>\<open>suits.flatMap(suit => ranks.map((rank, index) => new Card(...)))\<close>,
  keeps the first 52 and shuffles. The top of the deck is the end of the array.
\<close>

definition suits :: "suit list" where
  "suits = [hearts, diamonds, flowers, spades]"

definition ranks :: "rank list" where
  "ranks = [Ace, Two, Three, Four, Five, Six, Seven, Eight, Nine, Ten, Jack, Queen, King]"

definition buildCards :: "card list" where
  "buildCards =
     take 52 (concat (map (\<lambda>s. map (\<lambda>(r, index). Card (getSuitSymbol s) s r index)
                                    (zip ranks [0..<length ranks])) suits))"

text \<open>
  \<^verbatim>\<open>shuffle\<close>, for \<^verbatim>\<open>i\<close> from \<^verbatim>\<open>length - 1\<close> down to 1: swap the cards at \<^verbatim>\<open>i\<close> and
  \<^verbatim>\<open>j = Math.floor(Math.random() * (i + 1))\<close>. The random source is a parameter: \<open>rnd i\<close>
  stands for the draw at step \<open>i\<close>, reduced into the range \<open>0..i\<close> of \<^verbatim>\<open>j\<close>.
\<close>

primrec shuffle_from :: "nat \<Rightarrow> (nat \<Rightarrow> nat) \<Rightarrow> card list \<Rightarrow> card list" where
  "shuffle_from 0 rnd cs = cs"
| "shuffle_from (Suc i) rnd cs =
     (let j = rnd (Suc i) mod (Suc (Suc i))
      in shuffle_from i rnd (cs[Suc i := cs ! j, j := cs ! Suc i]))"

definition shuffle :: "(nat \<Rightarrow> nat) \<Rightarrow> card list \<Rightarrow> card list" where
  "shuffle rnd cs = shuffle_from (length cs - 1) rnd cs"

text \<open>
  \<^verbatim>\<open>drawCard() { const card = this.cards.pop(); return card; }\<close>: the last card and the
  shorter deck, or \<^verbatim>\<open>undefined\<close> (here \<open>None\<close>) and the same empty deck. \<^verbatim>\<open>pop\<close> is the
  same operation on \<^verbatim>\<open>gameState.discardPile\<close>.
\<close>

definition pop :: "card list \<Rightarrow> card option \<times> card list" where
  "pop cs = (if cs = [] then (None, cs) else (Some (last cs), butlast cs))"

definition drawCard :: "card list \<Rightarrow> card option \<times> card list" where
  "drawCard deck_cards = pop deck_cards"

section \<open>The game state\<close>

text \<open>
  One record for what the actions read and write: the deck's array, the arrays of
  \<^verbatim>\<open>gameState\<close> (\<^verbatim>\<open>players[0].hand\<close>, \<^verbatim>\<open>players[1].hand\<close>, \<^verbatim>\<open>discardPile\<close>), the turn
  flags, the two animation flags of \<^verbatim>\<open>Game\<close>, the sprite containers and the
  \<^verbatim>\<open>interactive\<close> flag of each button. A container of a hand is the list of the cards its
  sprites carry (\<^verbatim>\<open>cardSprite.card\<close>); of the deck container and the discard pile
  container only the number of children is read. The deck container's children are the
  sprites of the deck and the discard pile's container, which \<^verbatim>\<open>addDiscardPile\<close> adds to
  it.
\<close>

record Game =
  deck :: "card list"
  discardPile :: "card list"
  players0_hand :: "card list"
  players1_hand :: "card list"
  currentPlayerIndex :: nat
  player1HasDrawn :: bool
  player1HasDiscarded :: bool
  player2HasDrawn :: bool
  player2HasDiscarded :: bool
  knockedPlayer :: "nat option"
  isDealingCards :: bool
  isAnimating :: bool
  deckContainer :: nat
  discardPileContainer :: nat
  player1HandContainer :: "card list"
  player2HandContainer :: "card list"
  pointsCalculator :: PointsCalculator
  startGameButton :: bool
  drawCardActionButton :: bool
  drawFromPileButton :: bool
  knockButton :: bool
  endTurnButton :: bool

text \<open>The state the constructor of \<^verbatim>\<open>Game\<close> leaves, for a deck already shuffled.\<close>

definition newGame :: "card list \<Rightarrow> Game" where
  "newGame deck_cards =
     \<lparr>deck = deck_cards, discardPile = [], players0_hand = [], players1_hand = [],
      currentPlayerIndex = 0,
      player1HasDrawn = False, player1HasDiscarded = False,
      player2HasDrawn = False, player2HasDiscarded = False,
      knockedPlayer = None, isDealingCards = False, isAnimating = False,
      deckContainer = Suc (length deck_cards), discardPileContainer = 0,
      player1HandContainer = [], player2HandContainer = [],
      pointsCalculator = new_PointsCalculator,
      startGameButton = True, drawCardActionButton = True, drawFromPileButton = True,
      knockButton = True, endTurnButton = True\<rparr>"

section \<open>The knock decision (AIPlayer.shouldKnock)\<close>

text \<open>The last part of \<^verbatim>\<open>shouldKnock\<close>: the thresholds by game stage.\<close>

definition knockByStage :: "number \<Rightarrow> number \<Rightarrow> nat \<Rightarrow> bool" where
  "knockByStage player2MaxPoints player1EstimatedMaxPoints totalTurns =
     (if totalTurns < 3 then num_ge player2MaxPoints (Num 26)
      else if totalTurns < 6 then num_ge player2MaxPoints (num_add player1EstimatedMaxPoints 2)
      else num_ge player2MaxPoints (num_add player1EstimatedMaxPoints 1))"

definition shouldKnock :: "Game \<Rightarrow> bool" where
  "shouldKnock g =
     (let hand = players1_hand g in
      if length hand \<noteq> 3 then False
      else let player2MaxPoints = maxPoints hand in
        if player2MaxPoints = Num 31 then True
        else if num_ge player2MaxPoints (Num 25) then True
        else let player1VisibleCards = filter (\<lambda>c. visible c) (players0_hand g) in
          if length player1VisibleCards > 0
          then (let player1EstimatedMaxPoints = maxPoints player1VisibleCards in
                if int (length player1VisibleCards) \<ge> int (length (players0_hand g)) - 1
                then num_ge player2MaxPoints (num_add player1EstimatedMaxPoints 1)
                else knockByStage player2MaxPoints player1EstimatedMaxPoints
                       (length (discardPile g)))
          else (let player1EstimatedMaxPoints =
                      (if length (discardPile g) > 3 then Num 21 else Num 19)
                in knockByStage player2MaxPoints player1EstimatedMaxPoints
                     (length (discardPile g))))"

section \<open>The buttons (Game.js, GameController.js)\<close>

definition disableAllButtons :: "Game \<Rightarrow> Game" where
  "disableAllButtons g =
     g\<lparr>startGameButton := False, drawCardActionButton := False, drawFromPileButton := False,
       knockButton := False, endTurnButton := False\<rparr>"

definition updateKnockButtonState :: "Game \<Rightarrow> Game" where
  "updateKnockButtonState g =
     g\<lparr>knockButton := (length (player1HandContainer g) = 3 \<and> currentPlayerIndex g = 0)\<rparr>"

definition updateEndTurnButtonState :: "Game \<Rightarrow> Game" where
  "updateEndTurnButtonState g =
     g\<lparr>endTurnButton := (currentPlayerIndex g = 0 \<and> length (player1HandContainer g) \<noteq> 4)\<rparr>"

definition updateButtonStates :: "Game \<Rightarrow> Game" where
  "updateButtonStates g =
     (if \<not> isDealingCards g \<and> \<not> isAnimating g
      then (if currentPlayerIndex g = 0
            then updateEndTurnButtonState (updateKnockButtonState
                   (g\<lparr>drawCardActionButton := \<not> player1HasDrawn g,
                      drawFromPileButton := \<not> player1HasDrawn g\<rparr>))
            else g\<lparr>drawCardActionButton := False, drawFromPileButton := False,
                   knockButton := False, endTurnButton := False\<rparr>)
      else g)"

section \<open>The actions of Player 1 (GameController.js, Game.js)\<close>

text \<open>
  Each action is modelled as the whole step from the call to the end of its animation,
  where the source sets the flags and re-enables the buttons; \<^verbatim>\<open>isAnimating\<close> is true in
  between and every action returns at once while it is. A call that returns at its guard
  gives back the state it got. \<open>Inl TypeError\<close> is the exception the source meets when
  \<^verbatim>\<open>pop\<close> gave \<^verbatim>\<open>undefined\<close> and a property of the card is read
  (\<^verbatim>\<open>card.rank\<close>, and again in the \<^verbatim>\<open>catch\<close> handler's \<^verbatim>\<open>generateCardTexture\<close>).
\<close>

definition drawCardForPlayer1 :: "Game \<Rightarrow> error + Game" where
  "drawCardForPlayer1 g =
     (if player1HasDrawn g \<or> currentPlayerIndex g \<noteq> 0 \<or> isAnimating g then Inr g
      else if deckContainer g > 0
      then (case drawCard (deck g) of
              (None, _) \<Rightarrow> Inl TypeError
            | (Some drawn, rest) \<Rightarrow>
                (let g1 = disableAllButtons (g\<lparr>isAnimating := True\<rparr>);
                     g2 = g1\<lparr>deck := rest,
                             players0_hand := players0_hand g1 @ [drawn],
                             deckContainer := deckContainer g1 - 1\<rparr>;
                     g3 = g2\<lparr>player1HandContainer := player1HandContainer g2 @ [drawn],
                             player1HasDrawn := True,
                             player1HasDiscarded := False\<rparr>;
                     g4 = g3\<lparr>pointsCalculator :=
                               updateTotalPoints (player1HandContainer g3) (pointsCalculator g3)\<rparr>
                 in Inr (updateButtonStates (g4\<lparr>isAnimating := False\<rparr>))))
      else Inr g)"

definition drawCardFromDiscardPile :: "Game \<Rightarrow> error + Game" where
  "drawCardFromDiscardPile g =
     (if player1HasDrawn g \<or> currentPlayerIndex g \<noteq> 0 \<or> isAnimating g then Inr g
      else if discardPileContainer g > 0
      then (case pop (discardPile g) of
              (None, _) \<Rightarrow> Inl TypeError
            | (Some drawn, rest) \<Rightarrow>
                (let g1 = disableAllButtons (g\<lparr>isAnimating := True\<rparr>);
                     g2 = g1\<lparr>discardPileContainer := discardPileContainer g1 - 1,
                             discardPile := rest,
                             players0_hand := players0_hand g1 @ [drawn]\<rparr>;
                     g3 = g2\<lparr>player1HandContainer := player1HandContainer g2 @ [drawn],
                             player1HasDrawn := True,
                             player1HasDiscarded := False\<rparr>;
                     g4 = g3\<lparr>pointsCalculator :=
                               updateTotalPoints (player1HandContainer g3) (pointsCalculator g3)\<rparr>
                 in Inr (updateButtonStates (g4\<lparr>isAnimating := False\<rparr>))))
      else Inr g)"

text \<open>
  \<^verbatim>\<open>discardCard(cardSprite)\<close>. The sprite is given by the card it carries;
  \<^verbatim>\<open>removeChild\<close> takes that sprite out of Player 1's hand container. The card is
  pushed on \<^verbatim>\<open>gameState.discardPile\<close>; \<^verbatim>\<open>gameState.players[0].hand\<close> is not touched.
\<close>

definition discardCard :: "card \<Rightarrow> Game \<Rightarrow> error + Game" where
  "discardCard cardSprite g =
     (if \<not> player1HasDrawn g \<or> player1HasDiscarded g \<or> currentPlayerIndex g \<noteq> 0
         \<or> isAnimating g
      then Inr g
      else let g1 = disableAllButtons (g\<lparr>isAnimating := True\<rparr>);
               g2 = g1\<lparr>player1HandContainer := remove1 cardSprite (player1HandContainer g1)\<rparr>;
               g3 = g2\<lparr>discardPileContainer := discardPileContainer g2 + 1,
                       discardPile := discardPile g2 @ [cardSprite],
                       player1HasDiscarded := True\<rparr>;
               g4 = g3\<lparr>pointsCalculator :=
                         updateTotalPoints (player1HandContainer g3) (pointsCalculator g3)\<rparr>
           in Inr (updateButtonStates (g4\<lparr>isAnimating := False\<rparr>)))"

text \<open>
  The handler of the End Turn button, up to its \<^verbatim>\<open>setTimeout\<close> (which later clears
  \<^verbatim>\<open>isAnimating\<close> and starts Player 2's turn). The handler tests the player index and
  the two animation flags, and nothing else.
\<close>

definition endTurnHandler :: "Game \<Rightarrow> Game" where
  "endTurnHandler g =
     (if currentPlayerIndex g = 0 \<and> \<not> isDealingCards g \<and> \<not> isAnimating g
      then (disableAllButtons g)\<lparr>isAnimating := True, currentPlayerIndex := 1,
             player1HasDrawn := False, player1HasDiscarded := False\<rparr>
      else g)"

text \<open>
  A press of the End Turn button: the \<^verbatim>\<open>pointerdown\<close> handler runs when the button is
  interactive.
\<close>

definition endTurn :: "Game \<Rightarrow> Game" where
  "endTurn g = (if endTurnButton g then endTurnHandler g else g)"

section \<open>The deal (Game.js start button, GameController.dealCardsOneByOne)\<close>

text \<open>\<^verbatim>\<open>addCardToDiscardPileFromDeck\<close>: the card turned over next to the deck.\<close>

definition addCardToDiscardPileFromDeck :: "Game \<Rightarrow> error + Game" where
  "addCardToDiscardPileFromDeck g =
     (if deckContainer g > 0
      then (case drawCard (deck g) of
              (None, _) \<Rightarrow> Inl TypeError
            | (Some drawn, rest) \<Rightarrow>
                Inr (g\<lparr>deck := rest, deckContainer := deckContainer g - 1,
                       discardPileContainer := discardPileContainer g + 1,
                       discardPile := discardPile g @ [drawn]\<rparr>))
      else Inr g)"

text \<open>
  The interval callback of \<^verbatim>\<open>dealCardsOneByOne\<close>, one call after the other. While fewer
  than six cards are dealt and the deck container has a child, a card goes to player
  \<^verbatim>\<open>cardCount % 2\<close>; a card of Player 1 is marked \<^verbatim>\<open>visible\<close>. Then the scores are
  updated, one card is turned over on the discard pile, the flags are cleared and the four
  buttons enabled.

  A dealt card enters its hand container when its flip ends, about 40 frames after the
  tick that dealt it, and the ticks are 250 ms apart. The model takes every card to be in
  its container when the scores are updated. That is the order of the source only at a
  high frame rate: at 60 frames per second two cards of each hand have landed by then,
  and the two scores the deal stores are those of two cards. The arrays, the flags, the
  buttons and the containers after the deal do not depend on it; the field
  \<^const>\<open>pointsCalculator\<close> does.
\<close>

function dealFrom :: "nat \<Rightarrow> Game \<Rightarrow> error + Game" where
  "dealFrom cardCount g =
     (if cardCount < 6 \<and> deckContainer g > 0
      then (case drawCard (deck g) of
              (None, _) \<Rightarrow> Inl TypeError
            | (Some drawn, rest) \<Rightarrow>
                (let g1 = g\<lparr>deck := rest, deckContainer := deckContainer g - 1\<rparr>
                 in if cardCount mod 2 = 0
                    then dealFrom (cardCount + 1)
                           (g1\<lparr>players0_hand := players0_hand g1 @ [drawn\<lparr>visible := True\<rparr>],
                               player1HandContainer :=
                                 player1HandContainer g1 @ [drawn\<lparr>visible := True\<rparr>]\<rparr>)
                    else dealFrom (cardCount + 1)
                           (g1\<lparr>players1_hand := players1_hand g1 @ [drawn],
                               player2HandContainer := player2HandContainer g1 @ [drawn]\<rparr>)))
      else (let pc1 = updateTotalPoints (player1HandContainer g) (pointsCalculator g);
                pc2 = updatePlayer2TotalPoints (player2HandContainer g) pc1
            in case addCardToDiscardPileFromDeck (g\<lparr>pointsCalculator := pc2\<rparr>) of
                 Inl e \<Rightarrow> Inl e
               | Inr g1 \<Rightarrow>
                   Inr (g1\<lparr>isDealingCards := False, isAnimating := False,
                          drawCardActionButton := True, drawFromPileButton := True,
                          knockButton := True, endTurnButton := True\<rparr>)))"
  by pat_completeness auto
termination
  by (relation "measure (\<lambda>(cardCount, g). 6 - cardCount)") auto

declare dealFrom.simps [simp del]

definition dealCardsOneByOne :: "Game \<Rightarrow> error + Game" where
  "dealCardsOneByOne g =
     dealFrom 0 (g\<lparr>drawCardActionButton := False, drawFromPileButton := False,
                   knockButton := False, endTurnButton := False\<rparr>)"

text \<open>
  The handler of the Start Game button. \<^verbatim>\<open>dealCardsOneByOne\<close> returns as soon as its
  interval is set, so the handler's own \<^verbatim>\<open>updateTotalPoints\<close> runs on the hand container
  as it is before the first card is dealt.
\<close>

definition startGame :: "Game \<Rightarrow> error + Game" where
  "startGame g =
     (let g1 = (disableAllButtons g)\<lparr>isDealingCards := True, isAnimating := True\<rparr>;
          g2 = g1\<lparr>currentPlayerIndex := 0,
                  player1HasDrawn := False, player1HasDiscarded := False,
                  player2HasDrawn := False, player2HasDiscarded := False\<rparr>;
          g3 = g2\<lparr>pointsCalculator :=
                    updateTotalPoints (player1HandContainer g2) (pointsCalculator g2)\<rparr>
      in dealCardsOneByOne g3)"

section \<open>The discard of Player 2 (Player2Controller.discardCard)\<close>

text \<open>
  The index comes from \<^verbatim>\<open>selectCardToDiscard\<close> on \<^verbatim>\<open>gameState.players[1].hand\<close>; the
  sprite is the child of Player 2's hand container at that index, and \<^verbatim>\<open>removeChild\<close>
  takes that child out. Here the card is taken out of the hand array
  (\<^verbatim>\<open>splice(cardIndexToDiscard, 1)\<close>) before the sprite's card is pushed on the discard
  pile.
\<close>

definition splice1 :: "nat \<Rightarrow> 'a list \<Rightarrow> 'a list" where
  "splice1 i xs = take i xs @ drop (Suc i) xs"

definition player2_discardCard :: "Game \<Rightarrow> error + Game" where
  "player2_discardCard g =
     (if length (player2HandContainer g) \<le> 0 then Inr g
      else case selectCardToDiscard (players1_hand g) of
             Inl e \<Rightarrow> Inl e
           | Inr Undefined \<Rightarrow> Inl TypeError
           | Inr (Index cardIndexToDiscard) \<Rightarrow>
               if cardIndexToDiscard = - 1 then Inr g
               else if cardIndexToDiscard < 0 then Inl TypeError
               else (case nth_opt (player2HandContainer g) (nat cardIndexToDiscard) of
                       None \<Rightarrow> Inl TypeError
                     | Some cardSprite \<Rightarrow>
                         Inr (g\<lparr>player2HandContainer :=
                                  splice1 (nat cardIndexToDiscard) (player2HandContainer g),
                                discardPileContainer := discardPileContainer g + 1,
                                players1_hand :=
                                  splice1 (nat cardIndexToDiscard) (players1_hand g),
                                discardPile := discardPile g @ [cardSprite]\<rparr>)))"

section \<open>The card count of a round, and example states\<close>

text \<open>
  The number of cards the round's arrays hold:
  \<^verbatim>\<open>deck.cards\<close>, \<^verbatim>\<open>gameState.discardPile\<close> and the two \<^verbatim>\<open>hand\<close> arrays.
\<close>

definition totalCards :: "Game \<Rightarrow> nat" where
  "totalCards g =
     length (deck g) + length (discardPile g)
       + length (players0_hand g) + length (players1_hand g)"

text \<open>
  A state in Player 2's turn, given the two hand arrays and the discard pile; everything
  else as the constructor leaves it.
\<close>

definition knockState :: "card list \<Rightarrow> card list \<Rightarrow> card list \<Rightarrow> Game" where
  "knockState hand0 hand1 pile =
     (newGame [])\<lparr>players0_hand := hand0, players1_hand := hand1, discardPile := pile,
                  currentPlayerIndex := 1\<rparr>"

text \<open>A dealt card of Player 1: marked visible.\<close>

definition seen :: "card \<Rightarrow> card" where
  "seen c = c\<lparr>visible := True\<rparr>"

text \<open>
  Player 2 holds A and K of spades and the 5 of diamonds (21 in spades). Player 1's hand
  array holds its three dealt cards, visible, and two cards drawn later; four cards lie
  on the discard pile.
\<close>

definition midGame :: Game where
  "midGame =
     knockState
       [seen (mkCard hearts Two), seen (mkCard diamonds Three), seen (mkCard flowers Four),
        mkCard hearts Seven, mkCard diamonds Eight]
       [mkCard spades Ace, mkCard spades King, mkCard diamonds Five]
       [mkCard flowers Nine, mkCard diamonds Nine, mkCard hearts Nine, mkCard spades Nine]"

text \<open>The same, with no visible card in Player 1's hand array.\<close>

definition midGameUnseen :: Game where
  "midGameUnseen =
     knockState
       [mkCard hearts Two, mkCard diamonds Three, mkCard flowers Four]
       [mkCard spades Ace, mkCard spades King, mkCard diamonds Five]
       [mkCard flowers Nine, mkCard diamonds Nine, mkCard hearts Nine, mkCard spades Nine]"

text \<open>Player 2 holds A, K, Q of hearts: 31.\<close>

definition strongHand :: Game where
  "strongHand =
     knockState
       [seen (mkCard spades Two), seen (mkCard diamonds Three), seen (mkCard flowers Four)]
       [mkCard hearts Ace, mkCard hearts King, mkCard hearts Queen]
       [mkCard flowers Nine]"

text \<open>
  The state after the deal of the deck in the order it is built (the outcome of a shuffle
  whose every draw is \<^verbatim>\<open>j = i\<close>), written out: Player 1 holds K, J, 9 of spades,
  Player 2 holds Q, 10, 8, the 7 lies on the discard pile, 45 cards are left.
\<close>

definition dealt :: Game where
  "dealt =
     \<lparr>deck = take 45 buildCards,
      discardPile = [mkCard spades Seven],
      players0_hand = [seen (mkCard spades King), seen (mkCard spades Jack), seen (mkCard spades Nine)],
      players1_hand = [mkCard spades Queen, mkCard spades Ten, mkCard spades Eight],
      currentPlayerIndex = 0,
      player1HasDrawn = False, player1HasDiscarded = False,
      player2HasDrawn = False, player2HasDiscarded = False,
      knockedPlayer = None, isDealingCards = False, isAnimating = False,
      deckContainer = 46, discardPileContainer = 1,
      player1HandContainer =
        [seen (mkCard spades King), seen (mkCard spades Jack), seen (mkCard spades Nine)],
      player2HandContainer = [mkCard spades Queen, mkCard spades Ten, mkCard spades Eight],
      pointsCalculator = \<lparr>player1points = Num 29, player2points = Num 28\<rparr>,
      startGameButton = False, drawCardActionButton = True, drawFromPileButton = True,
      knockButton = True, endTurnButton = True\<rparr>"

text \<open>
  Vocabulary for the facts about the groups: the group a key has so far (the empty
  group for a missing key), and the number of cards of a suit in a hand.
\<close>

definition groupOf :: "groups \<Rightarrow> symbol \<Rightarrow> suitGroup" where
  "groupOf gs s =
     (case map_of gs s of None \<Rightarrow> \<lparr>cards = [], totalValue = 0, indices = []\<rparr> | Some g \<Rightarrow> g)"

definition suitCount :: "symbol \<Rightarrow> card list \<Rightarrow> nat" where
  "suitCount s hand = length (filter (\<lambda>c. symbolOf c = s) hand)"

text \<open>
  Invariants of the loops of the discard choice: a loop state holds -1 or an index of the
  hand, and a group has a card, as many indices as cards, and only indices of the hand.
\<close>

definition indexBelow :: "nat \<Rightarrow> jsindex \<Rightarrow> bool" where
  "indexBelow n r = (r = Index (- 1) \<or> (\<exists>k<n. r = Index (int k)))"

definition groupWf :: "nat \<Rightarrow> suitGroup \<Rightarrow> bool" where
  "groupWf n g = (cards g \<noteq> [] \<and> length (indices g) = length (cards g)
     \<and> (\<forall>i\<in>set (indices g). i < n))"

text \<open>Hands of the examples.\<close>

definition threeSpadesAndTwo :: "card list" where
  "threeSpadesAndTwo =
     [mkCard spades Ace, mkCard spades King, mkCard spades Queen, mkCard hearts Two]"

definition fourSpades :: "card list" where
  "fourSpades = [mkCard spades Ace, mkCard spades King, mkCard spades Queen, mkCard spades Jack]"

definition fourSuits :: "card list" where
  "fourSuits = [mkCard spades Ace, mkCard hearts King, mkCard diamonds Queen, mkCard flowers Two]"

text \<open>
  What holds of Player 1's hand container once the cards are dealt: it has three cards
  or more, and four or more between a draw and the discard that follows it.
\<close>

definition handHeld :: "Game \<Rightarrow> bool" where
  "handHeld g =
     (3 \<le> length (player1HandContainer g)
      \<and> (player1HasDrawn g \<and> \<not> player1HasDiscarded g \<longrightarrow> 4 \<le> length (player1HandContainer g)))"

section \<open>Facts about scoring\<close>

lemma map_of_addPoints:
  "map_of (addPoints acc c) =
     (map_of acc)(symbolOf c \<mapsto> (case map_of acc (symbolOf c) of None \<Rightarrow> 0 | Some p \<Rightarrow> p) + valueOf c)"
  by (auto simp: addPoints_def Let_def symbolOf_def valueOf_def update_conv' fun_eq_iff
      split: option.splits)

lemma distinct_addPoints:
  "distinct (map fst acc) \<Longrightarrow> distinct (map fst (addPoints acc c))"
  by (auto simp: addPoints_def Let_def distinct_update split: option.splits)

lemma map_of_foldl_addPoints:
  "map_of (foldl addPoints acc hand) s =
     (if s \<in> symbolOf ` set hand \<or> s \<in> dom (map_of acc)
      then Some ((case map_of acc s of None \<Rightarrow> 0 | Some p \<Rightarrow> p) + suitTotal s hand)
      else None)"
proof (induction hand arbitrary: acc)
  case Nil
  then show ?case by (auto simp: suitTotal_def split: option.splits)
next
  case (Cons c cs)
  show ?case
    unfolding foldl_Cons Cons.IH map_of_addPoints
    by (auto simp: suitTotal_def split: option.splits)
qed

lemma distinct_foldl_addPoints:
  "distinct (map fst acc) \<Longrightarrow> distinct (map fst (foldl addPoints acc hand))"
  by (induction hand arbitrary: acc) (simp_all add: distinct_addPoints)

text \<open>
  C5. For every hand, \<^verbatim>\<open>calculatePointsBySuit\<close> has exactly one entry for each suit that
  occurs in the hand, its value is the sum of the rank values of the hand's cards of that
  suit, and a suit with no card in the hand has no entry (it is not mapped to 0). The
  rank values are A = 11, 2..9 at face value, and 10 for 10, J, Q and K.
\<close>

theorem calculatePointsBySuit_groups:
  "distinct (map fst (calculatePointsBySuit hand))
   \<and> fst ` set (calculatePointsBySuit hand) = symbolOf ` set hand
   \<and> map_of (calculatePointsBySuit hand) s =
       (if s \<in> symbolOf ` set hand then Some (suitTotal s hand) else None)
   \<and> map rankOrder [Ace, Two, Three, Four, Five, Six, Seven, Eight, Nine, Ten, Jack, Queen, King]
       = [11, 2, 3, 4, 5, 6, 7, 8, 9, 10, 10, 10, 10]"
proof -
  have m: "map_of (calculatePointsBySuit hand) t =
       (if t \<in> symbolOf ` set hand then Some (suitTotal t hand) else None)" for t
    by (simp add: calculatePointsBySuit_def map_of_foldl_addPoints)
  have "dom (map_of (calculatePointsBySuit hand)) = symbolOf ` set hand"
    by (auto simp: m dom_def)
  then have "fst ` set (calculatePointsBySuit hand) = symbolOf ` set hand"
    by (simp add: dom_map_of_conv_image_fst)
  moreover have "distinct (map fst (calculatePointsBySuit hand))"
    by (simp add: calculatePointsBySuit_def distinct_foldl_addPoints)
  ultimately show ?thesis using m by simp
qed

text \<open>
  The specification's example: 7 and 9 of clubs and the 2 of diamonds give 16 for clubs,
  2 for diamonds and no entry for hearts or spades.
\<close>

theorem calculatePointsBySuit_groups_witness:
  "map_of (calculatePointsBySuit [mkCard flowers Seven, mkCard flowers Nine, mkCard diamonds Two])
     ClubSym = Some 16
   \<and> map_of (calculatePointsBySuit [mkCard flowers Seven, mkCard flowers Nine, mkCard diamonds Two])
     DiamondSym = Some 2
   \<and> map_of (calculatePointsBySuit [mkCard flowers Seven, mkCard flowers Nine, mkCard diamonds Two])
     HeartSym = None
   \<and> map_of (calculatePointsBySuit [mkCard flowers Seven, mkCard flowers Nine, mkCard diamonds Two])
     SpadeSym = None"
proof -
  let ?h = "[mkCard flowers Seven, mkCard flowers Nine, mkCard diamonds Two]"
  have s: "symbolOf (mkCard s r) = getSuitSymbol s" "valueOf (mkCard s r) = rankOrder r" for s r
    by (simp_all add: mkCard_def Card_def symbolOf_def valueOf_def)
  show ?thesis
    using calculatePointsBySuit_groups [of ?h ClubSym] calculatePointsBySuit_groups [of ?h DiamondSym]
      calculatePointsBySuit_groups [of ?h HeartSym] calculatePointsBySuit_groups [of ?h SpadeSym]
    by (simp add: suitTotal_def s)
qed

section \<open>Facts about sorting and the greatest score\<close>

lemma mset_insert_by: "mset (insert_by cmp x xs) = add_mset x (mset xs)"
  by (induction xs) simp_all

lemma mset_js_sort: "mset (js_sort cmp xs) = mset xs"
  by (induction xs) (simp_all add: js_sort_def mset_insert_by)

lemma set_js_sort: "set (js_sort cmp xs) = set xs"
  using mset_js_sort [of cmp xs] by (metis set_mset_mset)

lemma length_js_sort: "length (js_sort cmp xs) = length xs"
  using mset_js_sort [of cmp xs] by (metis size_mset)

lemma js_sort_Nil_iff: "js_sort cmp xs = [] \<longleftrightarrow> xs = []"
  using length_js_sort [of cmp xs] by (metis length_0_conv)




lemma math_max_Max: "xs \<noteq> [] \<Longrightarrow> math_max xs = Num (Max (set xs))"
proof (induction xs)
  case Nil
  then show ?case by simp
next
  case (Cons x xs)
  show ?case
  proof (cases "xs = []")
    case True
    then show ?thesis by simp
  next
    case False
    with Cons.IH have "math_max xs = Num (Max (set xs))" by simp
    with False show ?thesis by simp
  qed
qed

lemma math_max_Nil_iff: "math_max xs = NegInfinity \<longleftrightarrow> xs = []"
  by (cases xs) (auto split: number.splits)

lemma points_values:
  "snd ` set (calculatePointsBySuit hand) = (\<lambda>s. suitTotal s hand) ` symbolOf ` set hand"
proof -
  let ?al = "calculatePointsBySuit hand"
  have m: "map_of ?al t = (if t \<in> symbolOf ` set hand then Some (suitTotal t hand) else None)"
    for t
    by (simp add: calculatePointsBySuit_def map_of_foldl_addPoints)
  have d: "distinct (map fst ?al)"
    by (simp add: calculatePointsBySuit_def distinct_foldl_addPoints)
  have "snd ` set ?al = ran (map_of ?al)"
    using d by (simp add: ran_distinct)
  also have "\<dots> = (\<lambda>s. suitTotal s hand) ` symbolOf ` set hand"
    unfolding ran_def by (auto simp: m split: if_splits)
  finally show ?thesis .
qed

lemma calculatePointsBySuit_Nil_iff: "calculatePointsBySuit hand = [] \<longleftrightarrow> hand = []"
proof -
  have "set (calculatePointsBySuit hand) = {} \<longleftrightarrow> set hand = {}"
    by (metis points_values image_is_empty)
  then show ?thesis by simp
qed

lemma maxPoints_bestScore: "hand \<noteq> [] \<Longrightarrow> maxPoints hand = Num (bestScore hand)"
proof -
  assume ne: "hand \<noteq> []"
  then have "map snd (calculatePointsBySuit hand) \<noteq> []"
    by (simp add: calculatePointsBySuit_Nil_iff)
  then have "maxPoints hand = Num (Max (set (map snd (calculatePointsBySuit hand))))"
    unfolding maxPoints_def by (rule math_max_Max)
  then show ?thesis using ne by (simp add: bestScore_def points_values)
qed






lemma example_cards_simps:
  "symbolOf (mkCard s r) = getSuitSymbol s" "valueOf (mkCard s r) = rankOrder r"
  "suit (mkCard s r) = s" "rank (mkCard s r) = r" "visible (mkCard s r) = False"
  by (simp_all add: mkCard_def Card_def symbolOf_def valueOf_def)


section \<open>The knock decision\<close>

lemma shouldKnock_weak_hand:
  assumes len: "length (players1_hand g) = 3"
    and weak: "bestScore (players1_hand g) < 25"
  shows "shouldKnock g =
     (let own = Num (bestScore (players1_hand g));
          vis = filter (\<lambda>c. visible c) (players0_hand g)
      in if vis \<noteq> []
         then (if int (length vis) \<ge> int (length (players0_hand g)) - 1
               then num_ge own (num_add (maxPoints vis) 1)
               else knockByStage own (maxPoints vis) (length (discardPile g)))
         else knockByStage own (if length (discardPile g) > 3 then Num 21 else Num 19)
                (length (discardPile g)))"
proof -
  from len have "players1_hand g \<noteq> []" by auto
  then have m: "maxPoints (players1_hand g) = Num (bestScore (players1_hand g))"
    by (rule maxPoints_bestScore)
  show ?thesis
    using len weak unfolding shouldKnock_def Let_def m by simp
qed

text \<open>
  C7. With three cards in Player 2's hand and a best-suit score of 25 or more (31
  included), \<^verbatim>\<open>shouldKnock\<close> returns true whatever Player 1's hand array and the discard
  pile hold.
\<close>

theorem shouldKnock_strong_hand:
  assumes "length (players1_hand g) = 3" and "bestScore (players1_hand g) \<ge> 25"
  shows "shouldKnock g"
proof -
  from assms(1) have "players1_hand g \<noteq> []" by auto
  then have "maxPoints (players1_hand g) = Num (bestScore (players1_hand g))"
    by (rule maxPoints_bestScore)
  with assms show ?thesis
    by (simp add: shouldKnock_def Let_def)
qed

lemma strongHand_facts:
  "length (players1_hand strongHand) = 3" "bestScore (players1_hand strongHand) = 31"
  by (simp_all add: strongHand_def knockState_def bestScore_def suitTotal_def
      example_cards_simps)

theorem shouldKnock_strong_hand_witness:
  "length (players1_hand strongHand) = 3 \<and> bestScore (players1_hand strongHand) \<ge> 25
   \<and> shouldKnock strongHand"
  using shouldKnock_strong_hand [of strongHand] by (simp add: strongHand_facts)

text \<open>
  C8 (as the code has it). With three cards in Player 2's hand and a best-suit score
  below 25: when no card of Player 1's hand array is visible, the estimate of the
  opponent is 21 if the discard pile holds more than 3 cards and 19 otherwise; when some
  card is visible but fewer than the hand's size minus one, the estimate is the best-suit
  score of the visible cards. In both cases the decision is: own score at least 26 with
  fewer than 3 cards on the discard pile, at least the estimate plus 2 with 3 to 5 cards,
  at least the estimate plus 1 with 6 or more.
\<close>

theorem shouldKnock_by_stage:
  assumes "length (players1_hand g) = 3"
    and "bestScore (players1_hand g) < 25"
    and "int (length (filter (\<lambda>c. visible c) (players0_hand g)))
           < int (length (players0_hand g)) - 1
         \<or> filter (\<lambda>c. visible c) (players0_hand g) = []"
  shows "shouldKnock g =
     (let own = bestScore (players1_hand g);
          depth = length (discardPile g);
          vis = filter (\<lambda>c. visible c) (players0_hand g);
          estimate = (if vis = [] then (if depth > 3 then 21 else 19) else bestScore vis)
      in if depth < 3 then own \<ge> 26
         else if depth < 6 then own \<ge> estimate + 2
         else own \<ge> estimate + 1)"
proof (cases "filter (\<lambda>c. visible c) (players0_hand g) = []")
  case True
  then show ?thesis
    using shouldKnock_weak_hand [OF assms(1,2)]
    by (simp add: Let_def knockByStage_def)
next
  case False
  then have m: "maxPoints (filter (\<lambda>c. visible c) (players0_hand g))
      = Num (bestScore (filter (\<lambda>c. visible c) (players0_hand g)))"
    by (rule maxPoints_bestScore)
  from False assms(3) have
    "int (length (filter (\<lambda>c. visible c) (players0_hand g))) < int (length (players0_hand g)) - 1"
    by simp
  with False show ?thesis
    using shouldKnock_weak_hand [OF assms(1,2)]
    by (simp add: Let_def knockByStage_def m)
qed

lemma seen_simps:
  "symbolOf (seen c) = symbolOf c" "valueOf (seen c) = valueOf c" "visible (seen c) = True"
  by (simp_all add: seen_def symbolOf_def valueOf_def)

lemma midGame_facts:
  "length (players1_hand midGame) = 3"
  "bestScore (players1_hand midGame) = 21"
  "length (players0_hand midGame) = 5"
  "filter (\<lambda>c. visible c) (players0_hand midGame) =
     [seen (mkCard hearts Two), seen (mkCard diamonds Three), seen (mkCard flowers Four)]"
  "length (discardPile midGame) = 4"
  by (simp_all add: midGame_def knockState_def bestScore_def suitTotal_def
      example_cards_simps seen_simps)

lemma midGame_visible_score:
  "bestScore [seen (mkCard hearts Two), seen (mkCard diamonds Three), seen (mkCard flowers Four)] = 4"
  by (simp add: bestScore_def suitTotal_def example_cards_simps seen_simps)

theorem shouldKnock_by_stage_witness:
  "length (players1_hand midGame) = 3
   \<and> bestScore (players1_hand midGame) < 25
   \<and> int (length (filter (\<lambda>c. visible c) (players0_hand midGame)))
        < int (length (players0_hand midGame)) - 1
   \<and> shouldKnock midGame = (21 \<ge> (4::int) + 2)"
  using shouldKnock_by_stage [of midGame]
  by (simp add: midGame_facts midGame_visible_score)

text \<open>
  C8 as stated fails when some, but fewer than the hand's size minus one, of Player 1's
  cards are visible: in \<^const>\<open>midGame\<close> three of five are, the discard pile holds 4
  cards, and Player 2 has 21. The claim's estimate is 21 and its rule (own score at least
  estimate plus 2) says not to knock; the code estimates 4 from the visible cards and
  knocks.
\<close>

theorem shouldKnock_estimate_counterexample:
  "length (players1_hand midGame) = 3
   \<and> bestScore (players1_hand midGame) = 21
   \<and> int (length (filter (\<lambda>c. visible c) (players0_hand midGame)))
        < int (length (players0_hand midGame)) - 1
   \<and> length (discardPile midGame) = 4
   \<and> shouldKnock midGame
   \<and> \<not> (bestScore (players1_hand midGame) \<ge> 21 + 2)"
proof -
  have "shouldKnock midGame"
    unfolding shouldKnock_weak_hand [of midGame, unfolded midGame_facts, simplified]
    using maxPoints_bestScore
      [of "[seen (mkCard hearts Two), seen (mkCard diamonds Three), seen (mkCard flowers Four)]"]
    by (simp add: Let_def midGame_facts midGame_visible_score knockByStage_def)
  then show ?thesis by (simp add: midGame_facts)
qed

section \<open>Drawing from the deck\<close>

text \<open>
  C2 (as the code has it). \<^verbatim>\<open>drawCard\<close> throws nothing: on an empty deck it returns
  \<^verbatim>\<open>undefined\<close> and the deck stays as it was; on any other deck it returns the last
  card and removes it.
\<close>

theorem drawCard_returns:
  "(fst (drawCard d) = None \<longleftrightarrow> d = [])
   \<and> snd (drawCard []) = []
   \<and> drawCard (d @ [c]) = (Some c, d)
   \<and> length (snd (drawCard d)) = length d - 1"
  by (simp add: drawCard_def pop_def)

theorem drawCard_returns_witness:
  "drawCard [mkCard hearts Ace, mkCard spades King] = (Some (mkCard spades King), [mkCard hearts Ace])
   \<and> fst (drawCard []) = None \<and> snd (drawCard []) = []"
  using drawCard_returns [of "[mkCard hearts Ace]" "mkCard spades King"] drawCard_returns [of "[]"]
  by simp

text \<open>
  C2 as stated fails: the call on the empty deck does not fail, it returns the value
  \<^verbatim>\<open>undefined\<close> (the deck is unchanged, as the claim says).
\<close>

theorem drawCard_empty_counterexample: "drawCard [] = (None, [])"
  by (simp add: drawCard_def pop_def)

section \<open>The rejected actions of Player 1\<close>

text \<open>
  C9. A draw (from the deck or from the discard pile) after Player 1 has drawn, a discard
  before Player 1 has drawn, and any of the three when it is not Player 1's turn, return
  at the guard: the state (hands, deck, discard pile, flags and all the rest) is the one
  before the call.
\<close>

theorem rejected_action_leaves_state:
  "(player1HasDrawn g \<or> currentPlayerIndex g \<noteq> 0 \<longrightarrow>
      drawCardForPlayer1 g = Inr g \<and> drawCardFromDiscardPile g = Inr g)
   \<and> (\<not> player1HasDrawn g \<or> currentPlayerIndex g \<noteq> 0 \<longrightarrow> discardCard c g = Inr g)"
  by (simp add: drawCardForPlayer1_def drawCardFromDiscardPile_def discardCard_def)

lemma dealt_flags:
  "currentPlayerIndex dealt = 0" "\<not> player1HasDrawn dealt" "\<not> player1HasDiscarded dealt"
  "\<not> isAnimating dealt" "\<not> isDealingCards dealt" "endTurnButton dealt"
  "length (player1HandContainer dealt) = 3"
  by (simp_all add: dealt_def)

lemma drawCardForPlayer1_Inr_flags:
  "drawCardForPlayer1 g = Inr g' \<Longrightarrow> \<not> player1HasDrawn g \<Longrightarrow> currentPlayerIndex g = 0
   \<Longrightarrow> \<not> isAnimating g \<Longrightarrow> deckContainer g > 0
   \<Longrightarrow> player1HasDrawn g' \<and> currentPlayerIndex g' = 0"
  by (auto simp: drawCardForPlayer1_def Let_def updateButtonStates_def disableAllButtons_def
      updateEndTurnButtonState_def updateKnockButtonState_def
      split: prod.splits option.splits if_splits)

lemma dealt_draw_ok: "\<exists>g. drawCardForPlayer1 dealt = Inr g"
  by (simp add: drawCardForPlayer1_def dealt_def drawCard_def pop_def buildCards_def
      suits_def ranks_def Let_def)

text \<open>
  After the deal a discard is rejected; after a draw from the deck a second draw, from
  either source, is rejected; in Player 2's turn all three are.
\<close>

theorem rejected_action_leaves_state_witness:
  "\<not> player1HasDrawn dealt \<and> discardCard (seen (mkCard spades King)) dealt = Inr dealt
   \<and> (\<exists>g. drawCardForPlayer1 dealt = Inr g \<and> player1HasDrawn g
          \<and> drawCardForPlayer1 g = Inr g \<and> drawCardFromDiscardPile g = Inr g)
   \<and> currentPlayerIndex midGame \<noteq> 0
   \<and> drawCardForPlayer1 midGame = Inr midGame
   \<and> drawCardFromDiscardPile midGame = Inr midGame
   \<and> discardCard (seen (mkCard spades King)) midGame = Inr midGame"
proof -
  obtain g where g: "drawCardForPlayer1 dealt = Inr g"
    using dealt_draw_ok by blast
  then have d: "player1HasDrawn g"
    using drawCardForPlayer1_Inr_flags [of dealt g] by (simp add: dealt_def)
  have "drawCardForPlayer1 g = Inr g \<and> drawCardFromDiscardPile g = Inr g"
    using rejected_action_leaves_state [of g] d by simp
  moreover have "discardCard (seen (mkCard spades King)) dealt = Inr dealt"
    using rejected_action_leaves_state [of dealt "seen (mkCard spades King)"] by (simp add: dealt_flags)
  moreover have "currentPlayerIndex midGame \<noteq> 0"
    by (simp add: midGame_def knockState_def)
  moreover from this have "drawCardForPlayer1 midGame = Inr midGame
      \<and> drawCardFromDiscardPile midGame = Inr midGame \<and> discardCard (seen (mkCard spades King)) midGame = Inr midGame"
    using rejected_action_leaves_state [of midGame "seen (mkCard spades King)"] by simp
  ultimately show ?thesis using g d by (auto simp: dealt_flags)
qed

section \<open>Ending the turn\<close>

text \<open>
  C3 (as the code has it). A press of End Turn takes effect exactly when the button is
  interactive, it is Player 1's turn and neither dealing nor an animation is going on;
  the flags \<^verbatim>\<open>player1HasDrawn\<close> and \<^verbatim>\<open>player1HasDiscarded\<close> are not looked at. It then
  makes Player 2 the current player and clears Player 1's two flags. Any other press
  changes nothing and raises nothing. The button is made interactive by the deal, and by
  \<^verbatim>\<open>updateEndTurnButtonState\<close> whenever it is Player 1's turn and Player 1's hand
  container does not hold 4 cards.
\<close>

theorem endTurn_effect:
  "(endTurnButton g \<and> currentPlayerIndex g = 0 \<and> \<not> isDealingCards g \<and> \<not> isAnimating g \<longrightarrow>
      currentPlayerIndex (endTurn g) = 1
      \<and> \<not> player1HasDrawn (endTurn g) \<and> \<not> player1HasDiscarded (endTurn g))
   \<and> (\<not> (endTurnButton g \<and> currentPlayerIndex g = 0 \<and> \<not> isDealingCards g \<and> \<not> isAnimating g)
        \<longrightarrow> endTurn g = g)
   \<and> endTurnButton (updateEndTurnButtonState g)
       = (currentPlayerIndex g = 0 \<and> length (player1HandContainer g) \<noteq> 4)"
  by (simp add: endTurn_def endTurnHandler_def disableAllButtons_def updateEndTurnButtonState_def)

lemma midGame_flags: "currentPlayerIndex midGame = 1"
  by (simp add: midGame_def knockState_def)

theorem endTurn_effect_witness:
  "endTurnButton dealt \<and> currentPlayerIndex dealt = 0
   \<and> \<not> isDealingCards dealt \<and> \<not> isAnimating dealt
   \<and> currentPlayerIndex (endTurn dealt) = 1
   \<and> currentPlayerIndex midGame \<noteq> 0 \<and> endTurn midGame = midGame"
  using endTurn_effect [of dealt] endTurn_effect [of midGame]
  by (simp add: dealt_flags midGame_flags)

text \<open>
  C3 as stated fails: \<^const>\<open>dealt\<close> is the state the deal of the deck in built order
  leaves. Player 1 has neither drawn nor discarded, and a press of End Turn makes Player 2
  the current player.
\<close>

theorem endTurn_without_draw_counterexample:
  "startGame (newGame (shuffle (\<lambda>i. i) buildCards)) = Inr dealt
   \<and> \<not> player1HasDrawn dealt \<and> \<not> player1HasDiscarded dealt
   \<and> currentPlayerIndex dealt = 0
   \<and> currentPlayerIndex (endTurn dealt) = 1"
proof -
  have "startGame (newGame (shuffle (\<lambda>i. i) buildCards)) = Inr dealt"
    by code_simp
  moreover have "currentPlayerIndex (endTurn dealt) = 1"
    by (simp add: endTurn_def endTurnHandler_def dealt_flags)
  ultimately show ?thesis by (simp add: dealt_flags)
qed

section \<open>The card count\<close>

lemma pop_length:
  "pop cs = (Some c, rest) \<Longrightarrow> length cs = Suc (length rest)"
  by (auto simp: pop_def split: if_splits)

lemma updateButtonStates_fields:
  "deck (updateButtonStates g) = deck g"
  "discardPile (updateButtonStates g) = discardPile g"
  "players0_hand (updateButtonStates g) = players0_hand g"
  "players1_hand (updateButtonStates g) = players1_hand g"
  "player1HasDrawn (updateButtonStates g) = player1HasDrawn g"
  "player1HasDiscarded (updateButtonStates g) = player1HasDiscarded g"
  "currentPlayerIndex (updateButtonStates g) = currentPlayerIndex g"
  by (simp_all add: updateButtonStates_def updateEndTurnButtonState_def
      updateKnockButtonState_def)

text \<open>Both draws of Player 1 keep the count.\<close>

lemma drawCardForPlayer1_total:
  "drawCardForPlayer1 g = Inr g' \<Longrightarrow> totalCards g' = totalCards g"
  by (auto simp: drawCardForPlayer1_def drawCard_def Let_def totalCards_def disableAllButtons_def
      updateButtonStates_fields dest!: pop_length split: if_splits prod.splits option.splits)

lemma drawCardFromDiscardPile_total:
  "drawCardFromDiscardPile g = Inr g' \<Longrightarrow> totalCards g' = totalCards g"
  by (auto simp: drawCardFromDiscardPile_def Let_def totalCards_def disableAllButtons_def
      updateButtonStates_fields dest!: pop_length split: if_splits prod.splits option.splits)

text \<open>An accepted discard of Player 1 adds one: the hand array keeps the card.\<close>

lemma discardCard_total:
  "player1HasDrawn g \<Longrightarrow> \<not> player1HasDiscarded g \<Longrightarrow> currentPlayerIndex g = 0
   \<Longrightarrow> \<not> isAnimating g \<Longrightarrow> discardCard c g = Inr g' \<Longrightarrow> totalCards g' = Suc (totalCards g)"
  by (auto simp: discardCard_def Let_def totalCards_def disableAllButtons_def
      updateButtonStates_fields)

section \<open>Facts about the suit groups\<close>

lemma insert_by_insort_key:
  "(\<And>x y. cmp x y \<le> 0 \<longleftrightarrow> f x \<le> f y) \<Longrightarrow> insert_by cmp x ys = insort_key f x ys"
  by (induction ys) simp_all

lemma js_sort_sort_key:
  "(\<And>x y. cmp x y \<le> 0 \<longleftrightarrow> f x \<le> f y) \<Longrightarrow> js_sort cmp xs = sort_key f xs"
  by (induction xs) (simp_all add: js_sort_def insert_by_insort_key)

lemma map_of_addToGroup:
  "map_of (addToGroup acc (c, i)) =
     (map_of acc)(symbolOf c \<mapsto>
        \<lparr>cards = cards (groupOf acc (symbolOf c)) @ [c],
         totalValue = totalValue (groupOf acc (symbolOf c)) + valueOf c,
         indices = indices (groupOf acc (symbolOf c)) @ [i]\<rparr>)"
  by (simp add: addToGroup_def Let_def groupOf_def symbolOf_def valueOf_def update_conv')

lemma groupOf_addToGroup:
  "groupOf (addToGroup acc (c, i)) s =
     (if s = symbolOf c
      then \<lparr>cards = cards (groupOf acc s) @ [c],
            totalValue = totalValue (groupOf acc s) + valueOf c,
            indices = indices (groupOf acc s) @ [i]\<rparr>
      else groupOf acc s)"
  unfolding groupOf_def [of "addToGroup acc (c, i)"] map_of_addToGroup
  by (simp add: groupOf_def)

lemma dom_addToGroup:
  "s \<in> dom (map_of (addToGroup acc (c, i))) \<longleftrightarrow> s = symbolOf c \<or> s \<in> dom (map_of acc)"
  unfolding map_of_addToGroup by auto

lemma groupOf_Nil: "groupOf [] s = \<lparr>cards = [], totalValue = 0, indices = []\<rparr>"
  by (simp add: groupOf_def)

lemma suitTotal_Cons:
  "suitTotal s (c # cs) = (if symbolOf c = s then valueOf c else 0) + suitTotal s cs"
  by (simp add: suitTotal_def)

lemma distinct_addToGroup:
  "distinct (map fst acc) \<Longrightarrow> distinct (map fst (addToGroup acc ci))"
  by (simp add: addToGroup_def Let_def distinct_update)

lemma distinct_foldl_addToGroup:
  "distinct (map fst acc) \<Longrightarrow> distinct (map fst (foldl addToGroup acc xs))"
  by (induction xs arbitrary: acc) (simp_all add: distinct_addToGroup)

lemma map_of_foldl_addToGroup:
  "map_of (foldl addToGroup acc (zip cs [k..<k + length cs])) s =
     (if s \<in> symbolOf ` set cs \<or> s \<in> dom (map_of acc)
      then Some \<lparr>cards = cards (groupOf acc s) @ filter (\<lambda>c. symbolOf c = s) cs,
                 totalValue = totalValue (groupOf acc s) + suitTotal s cs,
                 indices = indices (groupOf acc s)
                   @ map snd (filter (\<lambda>ci. symbolOf (fst ci) = s) (zip cs [k..<k + length cs]))\<rparr>
      else None)"
proof (induction cs arbitrary: acc k)
  case Nil
  then show ?case by (auto simp: groupOf_def suitTotal_def split: option.splits)
next
  case (Cons c cs)
  have up: "[k..<k + length (c # cs)] = k # [Suc k..<Suc k + length cs]"
    by (subst upt_rec) simp
  show ?case
    unfolding up zip_Cons_Cons foldl_Cons
    using Cons.IH [of "addToGroup acc (c, k)" "Suc k"]
    by (auto simp: groupOf_addToGroup dom_addToGroup suitTotal_Cons)
qed

lemma distinct_groupBySuit: "distinct (map fst (groupBySuit hand))"
  by (simp add: groupBySuit_def distinct_foldl_addToGroup)

lemma map_of_groupBySuit:
  "map_of (groupBySuit hand) s =
     (if s \<in> symbolOf ` set hand
      then Some \<lparr>cards = filter (\<lambda>c. symbolOf c = s) hand,
                 totalValue = suitTotal s hand,
                 indices = map snd (filter (\<lambda>ci. symbolOf (fst ci) = s)
                                      (zip hand [0..<length hand]))\<rparr>
      else None)"
  using map_of_foldl_addToGroup [of "[]" hand 0 s]
  by (simp add: groupBySuit_def groupOf_Nil)

lemma groupBySuit_entry:
  assumes "(s, g) \<in> set (groupBySuit hand)"
  shows "s \<in> symbolOf ` set hand"
    and "cards g = filter (\<lambda>c. symbolOf c = s) hand"
    and "totalValue g = suitTotal s hand"
    and "indices g = map snd (filter (\<lambda>ci. symbolOf (fst ci) = s) (zip hand [0..<length hand]))"
proof -
  from assms have "map_of (groupBySuit hand) s = Some g"
    by (simp add: distinct_groupBySuit)
  then have "s \<in> symbolOf ` set hand \<and> g = \<lparr>cards = filter (\<lambda>c. symbolOf c = s) hand,
                 totalValue = suitTotal s hand,
                 indices = map snd (filter (\<lambda>ci. symbolOf (fst ci) = s)
                                      (zip hand [0..<length hand]))\<rparr>"
    unfolding map_of_groupBySuit by (simp split: if_splits)
  then show "s \<in> symbolOf ` set hand"
    and "cards g = filter (\<lambda>c. symbolOf c = s) hand"
    and "totalValue g = suitTotal s hand"
    and "indices g = map snd (filter (\<lambda>ci. symbolOf (fst ci) = s) (zip hand [0..<length hand]))"
    by simp_all
qed

lemma groupBySuit_has:
  assumes "s \<in> symbolOf ` set hand"
  shows "\<exists>g. (s, g) \<in> set (groupBySuit hand)"
proof -
  from assms obtain g where "map_of (groupBySuit hand) s = Some g"
    unfolding map_of_groupBySuit by simp
  then show ?thesis by (blast dest: map_of_SomeD)
qed

lemma groupBySuit_Nil_iff: "groupBySuit hand = [] \<longleftrightarrow> hand = []"
proof (cases hand)
  case Nil
  then show ?thesis by (simp add: groupBySuit_def)
next
  case (Cons c cs)
  then have "symbolOf c \<in> symbolOf ` set hand" by simp
  then obtain g where "(symbolOf c, g) \<in> set (groupBySuit hand)"
    using groupBySuit_has by blast
  then have "groupBySuit hand \<noteq> []" by (metis empty_iff empty_set)
  with Cons show ?thesis by simp
qed

lemma length_filter_zip_fst:
  "length xs = length ys \<Longrightarrow>
     length (filter (\<lambda>ci. P (fst ci)) (zip xs ys)) = length (filter P xs)"
proof -
  assume len: "length xs = length ys"
  have "map fst (filter (\<lambda>ci. P (fst ci)) (zip xs ys)) = filter P (map fst (zip xs ys))"
    by (simp add: filter_map comp_def)
  also have "\<dots> = filter P xs" using len by simp
  finally have "length (map fst (filter (\<lambda>ci. P (fst ci)) (zip xs ys))) = length (filter P xs)"
    by (rule arg_cong)
  then show ?thesis by simp
qed

lemma groupBySuit_wf:
  assumes "(s, g) \<in> set (groupBySuit hand)"
  shows "cards g \<noteq> []"
    and "length (indices g) = length (cards g)"
    and "\<And>i. i \<in> set (indices g) \<Longrightarrow> i < length hand"
proof -
  note e = groupBySuit_entry [OF assms]
  from e(1) show "cards g \<noteq> []"
    unfolding e(2) by (auto simp: filter_empty_conv)
  show "length (indices g) = length (cards g)"
    unfolding e(2) e(4)
    using length_filter_zip_fst [of hand "[0..<length hand]" "\<lambda>c. symbolOf c = s"] by simp
  show "i < length hand" if "i \<in> set (indices g)" for i
  proof -
    from that obtain c where "(c, i) \<in> set (zip hand [0..<length hand])"
      unfolding e(4) by auto
    then have "i \<in> set [0..<length hand]" by (rule set_zip_rightD)
    then show ?thesis by simp
  qed
qed

section \<open>The discard choice stays inside the hand\<close>

lemma discardOutsideStrongest_range:
  assumes "discardOutsideStrongest hand gs = Some i"
  shows "i < length hand"
proof -
  from assms obtain strongest item rest where
    "js_sort byRankAsc (filter (\<lambda>item. getSuitSymbol (suit (fst item)) \<noteq> strongest)
        (zip hand [0..<length hand])) = item # rest" and i: "i = snd item"
    by (auto simp: discardOutsideStrongest_def Let_def split: option.splits list.splits)
  then have "item \<in> set (js_sort byRankAsc (filter (\<lambda>item. getSuitSymbol (suit (fst item)) \<noteq> strongest)
        (zip hand [0..<length hand])))"
    by simp
  then have "item \<in> set (zip hand [0..<length hand])"
    by (simp add: set_js_sort)
  then have "snd item \<in> set [0..<length hand]"
    by (metis prod.collapse set_zip_rightD)
  with i show ?thesis by simp
qed

lemma lowerCard_indexBelow:
  "groupWf n g \<Longrightarrow> i < length (cards g) \<Longrightarrow> indexBelow n (snd st)
   \<Longrightarrow> indexBelow n (snd (lowerCard g st i))"
  by (auto simp: lowerCard_def Let_def nth_opt_def groupWf_def indexBelow_def)

lemma foldl_lowerCard_indexBelow:
  "groupWf n g \<Longrightarrow> set is \<subseteq> {..<length (cards g)} \<Longrightarrow> indexBelow n (snd st)
   \<Longrightarrow> indexBelow n (snd (foldl (lowerCard g) st is))"
  by (induction "is" arbitrary: st) (simp_all add: lowerCard_indexBelow)

lemma lowestOfGroup_indexBelow:
  "groupWf n g \<Longrightarrow> indexBelow n (snd st) \<Longrightarrow> indexBelow n (snd (lowestOfGroup st g))"
  unfolding lowestOfGroup_def by (rule foldl_lowerCard_indexBelow) auto

lemma foldl_lowestOfGroup_indexBelow:
  "\<forall>g\<in>set gs. groupWf n g \<Longrightarrow> indexBelow n (snd st)
   \<Longrightarrow> indexBelow n (snd (foldl lowestOfGroup st gs))"
  by (induction gs arbitrary: st) (simp_all add: lowestOfGroup_indexBelow)

lemma lowestOfOthers_indexBelow:
  "\<forall>g\<in>set gs. groupWf n g \<Longrightarrow> indexBelow n (snd (lowestOfOthers gs))"
  unfolding lowestOfOthers_def
  by (rule foldl_lowestOfGroup_indexBelow) (simp_all add: indexBelow_def)

lemma discardOutsideBestTwo_range:
  assumes "\<forall>sg\<in>set gs. groupWf n (snd sg)" and "discardOutsideBestTwo gs sv = Some r"
  shows "\<exists>k<n. r = Index (int k)"
proof -
  from assms(2) obtain others where
    r: "r = snd (lowestOfOthers (map snd others))" and ne: "r \<noteq> Index (- 1)"
    and sub: "set others \<subseteq> set gs"
    by (auto simp: discardOutsideBestTwo_def Let_def split: list.splits if_splits)
  from sub assms(1) have "\<forall>g\<in>set (map snd others). groupWf n g" by auto
  then have "indexBelow n r" unfolding r by (rule lowestOfOthers_indexBelow)
  with ne show ?thesis by (simp add: indexBelow_def)
qed

lemma lowerAt_bound:
  "fst st < length cs \<Longrightarrow> i < length cs \<Longrightarrow> fst (lowerAt cs st i) < length cs"
  by (simp add: lowerAt_def Let_def)

lemma foldl_lowerAt_bound:
  "fst st < length cs \<Longrightarrow> set is \<subseteq> {..<length cs} \<Longrightarrow> fst (foldl (lowerAt cs) st is) < length cs"
  by (induction "is" arbitrary: st) (simp_all add: lowerAt_bound)

lemma discardFromWeakest_range:
  assumes "sv \<noteq> []" and "\<forall>sg\<in>set sv. groupWf n (snd sg)"
  shows "\<exists>k<n. discardFromWeakest sv = Inr (Index (int k))"
proof -
  let ?w = "snd (last sv)"
  from assms have wf: "groupWf n ?w" by simp
  then obtain c0 cs where cards: "cards ?w = c0 # cs"
    by (cases "cards ?w") (auto simp: groupWf_def)
  let ?i = "fst (foldl (lowerAt (cards ?w)) (0, rankOrder (rank c0)) [1..<length (cards ?w)])"
  have "?i < length (cards ?w)"
    by (rule foldl_lowerAt_bound) (auto simp: cards)
  with wf have i: "?i < length (indices ?w)" and "indices ?w ! ?i < n"
    by (auto simp: groupWf_def)
  then show ?thesis
    using assms(1) cards by (simp add: discardFromWeakest_def Let_def nth_opt_def)
qed

lemma selectCardToDiscard_range:
  assumes "hand \<noteq> []"
  shows "\<exists>k<length hand. selectCardToDiscard hand = Inr (Index (int k))"
proof -
  let ?gs = "groupBySuit hand"
  have wf: "\<forall>sg\<in>set ?gs. groupWf (length hand) (snd sg)"
    using groupBySuit_wf [of _ _ hand] by (auto simp: groupWf_def)
  show ?thesis
  proof (cases "discardOutsideStrongest hand ?gs")
    case (Some i)
    then have "i < length hand" by (rule discardOutsideStrongest_range)
    with Some assms show ?thesis by (simp add: selectCardToDiscard_def Let_def)
  next
    case None
    let ?sv = "js_sort byCountThenTotalDesc ?gs"
    show ?thesis
    proof (cases "discardOutsideBestTwo ?gs ?sv")
      case (Some r)
      then obtain k where "k < length hand" "r = Index (int k)"
        using discardOutsideBestTwo_range [OF wf] by blast
      with Some None assms show ?thesis by (simp add: selectCardToDiscard_def Let_def)
    next
      case n2: None
      have "?sv \<noteq> []" using assms by (simp add: js_sort_Nil_iff groupBySuit_Nil_iff)
      moreover have "\<forall>sg\<in>set ?sv. groupWf (length hand) (snd sg)"
        using wf by (simp add: set_js_sort)
      ultimately obtain k where "k < length hand" "discardFromWeakest ?sv = Inr (Index (int k))"
        using discardFromWeakest_range by blast
      with None n2 assms show ?thesis by (simp add: selectCardToDiscard_def Let_def)
    qed
  qed
qed

section \<open>The discard choice with a suit of three or more cards\<close>

lemma js_sort_head_least:
  fixes f :: "'a \<Rightarrow> int"
  assumes cmp: "\<And>x y. cmp x y \<le> 0 \<longleftrightarrow> f x \<le> f y"
    and srt: "js_sort cmp xs = h # rest"
  shows "h \<in> set xs" and "\<And>y. y \<in> set xs \<Longrightarrow> f h \<le> f y"
    and "\<exists>more. filter (\<lambda>y. f y = f h) xs = h # more"
proof -
  have eq: "sort_key f xs = h # rest"
    using js_sort_sort_key [of cmp f xs] cmp srt by simp
  have "set (sort_key f xs) = set xs" by simp
  then show "h \<in> set xs" unfolding eq by auto
  have "sorted (map f (sort_key f xs))" by (rule sorted_sort_key)
  then have "\<forall>y\<in>set rest. f h \<le> f y" unfolding eq by simp
  moreover have "set xs = insert h (set rest)"
    using \<open>set (sort_key f xs) = set xs\<close> unfolding eq by simp
  ultimately show "f h \<le> f y" if "y \<in> set xs" for y using that by auto
  have "filter (\<lambda>y. f y = f h) xs = filter (\<lambda>y. f y = f h) (sort_key f xs)"
    by (simp add: sort_key_stable)
  then show "\<exists>more. filter (\<lambda>y. f y = f h) xs = h # more"
    unfolding eq by simp
qed

lemma in_zip_upt: "(c, j) \<in> set (zip hand [0..<length hand]) \<longleftrightarrow> j < length hand \<and> c = hand ! j"
  by (auto simp: in_set_zip)

lemma zip_upt_increasing:
  "sorted_wrt (\<lambda>a b. snd a < snd b) (filter P (zip hand [0..<length hand]))"
proof -
  have "sorted_wrt (<) (map snd (zip hand [0..<length hand]))" by simp
  then have "sorted_wrt (\<lambda>a b. snd a < snd b) (zip hand [0..<length hand])"
    by (simp only: sorted_wrt_map)
  then show ?thesis by (rule sorted_wrt_filter)
qed

lemma strongestSuit_greatest:
  assumes "3 \<le> suitCount t0 hand"
  shows "\<exists>s. strongestSuit (groupBySuit hand) = Some s \<and> 3 \<le> suitCount s hand
     \<and> (\<forall>t. 3 \<le> suitCount t hand \<longrightarrow> suitTotal t hand \<le> suitTotal s hand)"
proof -
  let ?gs = "groupBySuit hand"
  define strong where "strong = filter (\<lambda>sg. length (cards (snd sg)) \<ge> 3) ?gs"
  have in_strong: "\<exists>g. (t, g) \<in> set strong \<and> totalValue g = suitTotal t hand"
    if "3 \<le> suitCount t hand" for t
  proof -
    from that have "filter (\<lambda>c. symbolOf c = t) hand \<noteq> []"
      by (auto simp: suitCount_def)
    then have "t \<in> symbolOf ` set hand"
      by (auto simp: filter_empty_conv)
    then obtain g where g: "(t, g) \<in> set ?gs" using groupBySuit_has by blast
    from groupBySuit_entry(2,3) [OF g] that show ?thesis
      using g by (auto simp: suitCount_def strong_def)
  qed
  from in_strong [OF assms] obtain g0 where "(t0, g0) \<in> set strong" by blast
  then have "strong \<noteq> []" by (cases strong) auto
  then obtain h rest where srt: "js_sort byTotalDesc strong = h # rest"
    by (cases "js_sort byTotalDesc strong") (auto simp: js_sort_Nil_iff)
  have cmp: "byTotalDesc x y \<le> 0 \<longleftrightarrow> - totalValue (snd x) \<le> - totalValue (snd y)" for x y
    by (simp add: byTotalDesc_def)
  note hd = js_sort_head_least(1,2) [of byTotalDesc "\<lambda>sg. - totalValue (snd sg)", OF cmp srt]
  obtain s g where h: "h = (s, g)" by (cases h)
  from hd(1) h have sg: "(s, g) \<in> set ?gs" and three: "3 \<le> length (cards g)"
    by (auto simp: strong_def)
  have "3 \<le> suitCount s hand"
    using three groupBySuit_entry(2) [OF sg] by (simp add: suitCount_def)
  moreover have "suitTotal t hand \<le> suitTotal s hand" if "3 \<le> suitCount t hand" for t
  proof -
    from in_strong [OF that] obtain g' where "(t, g') \<in> set strong"
      and "totalValue g' = suitTotal t hand" by blast
    with hd(2) [of "(t, g')"] h groupBySuit_entry(3) [OF sg] show ?thesis by simp
  qed
  moreover have "strongestSuit ?gs = Some s"
    using srt by (simp add: strongestSuit_def strong_def h)
  ultimately show ?thesis by blast
qed

lemma discardOutsideStrongest_first_lowest:
  assumes st: "strongestSuit (groupBySuit hand) = Some s"
    and off: "list_ex (\<lambda>c. symbolOf c \<noteq> s) hand"
  shows "\<exists>i<length hand. discardOutsideStrongest hand (groupBySuit hand) = Some i
     \<and> symbolOf (hand ! i) \<noteq> s
     \<and> (\<forall>j<length hand. symbolOf (hand ! j) \<noteq> s \<longrightarrow>
           valueOf (hand ! i) \<le> valueOf (hand ! j)
           \<and> (j < i \<longrightarrow> valueOf (hand ! i) < valueOf (hand ! j)))"
proof -
  let ?P = "\<lambda>item :: card \<times> nat. getSuitSymbol (suit (fst item)) \<noteq> s"
  define L where "L = filter ?P (zip hand [0..<length hand])"
  let ?f = "\<lambda>a :: card \<times> nat. rankOrder (rank (fst a))"
  have mem: "(c, j) \<in> set L \<longleftrightarrow> j < length hand \<and> c = hand ! j \<and> symbolOf c \<noteq> s" for c j
    by (auto simp: L_def in_zip_upt symbolOf_def)
  have incr: "sorted_wrt (\<lambda>a b. snd a < snd b) (filter Q L)" for Q
    unfolding L_def by (rule sorted_wrt_filter) (rule zip_upt_increasing)
  from off obtain c where "c \<in> set hand" "symbolOf c \<noteq> s"
    by (auto simp: list_ex_iff)
  then obtain j0 where "j0 < length hand" "hand ! j0 = c"
    by (auto simp: in_set_conv_nth)
  with \<open>symbolOf c \<noteq> s\<close> have "(c, j0) \<in> set L" by (simp add: mem)
  then have "L \<noteq> []" by auto
  then obtain h rest where srt: "js_sort byRankAsc L = h # rest"
    by (cases "js_sort byRankAsc L") (auto simp: js_sort_Nil_iff)
  have cmp: "byRankAsc x y \<le> 0 \<longleftrightarrow> ?f x \<le> ?f y" for x y
    by (simp add: byRankAsc_def)
  note hd = js_sort_head_least [of byRankAsc ?f, OF cmp srt]
  obtain ci i where h: "h = (ci, i)" by (cases h)
  from hd(1) h have i: "i < length hand" "ci = hand ! i" "symbolOf (hand ! i) \<noteq> s"
    by (auto simp: mem)
  from hd(3) obtain more where F: "filter (\<lambda>y. ?f y = ?f h) L = h # more" by blast
  have "sorted_wrt (\<lambda>a b. snd a < snd b) (filter (\<lambda>y. ?f y = ?f h) L)"
    by (rule incr)
  then have later: "\<forall>y\<in>set more. snd h < snd y"
    unfolding F by simp
  have "valueOf (hand ! i) \<le> valueOf (hand ! j)
      \<and> (j < i \<longrightarrow> valueOf (hand ! i) < valueOf (hand ! j))"
    if j: "j < length hand" "symbolOf (hand ! j) \<noteq> s" for j
  proof -
    from j have inL: "(hand ! j, j) \<in> set L" by (simp add: mem)
    from hd(2) [OF inL] have le: "valueOf (hand ! i) \<le> valueOf (hand ! j)"
      by (simp add: h i valueOf_def)
    have "i \<le> j" if eq: "valueOf (hand ! j) = valueOf (hand ! i)"
    proof -
      from inL eq have "(hand ! j, j) \<in> set (filter (\<lambda>y. ?f y = ?f h) L)"
        by (simp add: h i valueOf_def)
      then have "(hand ! j, j) = h \<or> (hand ! j, j) \<in> set more"
        unfolding F by simp
      then show ?thesis using later h by auto
    qed
    with le show ?thesis by (cases "valueOf (hand ! j) = valueOf (hand ! i)") auto
  qed
  moreover have "discardOutsideStrongest hand (groupBySuit hand) = Some i"
    using srt by (simp add: discardOutsideStrongest_def st Let_def L_def h)
  ultimately show ?thesis using i by blast
qed

text \<open>
  C6 (as the code has it). When some suit has three or more cards in the hand, let \<open>s\<close>
  be the suit the code keeps: it has three or more cards and the greatest total among the
  suits that have. If the hand has a card outside \<open>s\<close>, \<^verbatim>\<open>selectCardToDiscard\<close> returns
  the index of the card of least rank value among the cards outside \<open>s\<close>, the first one
  in hand order among equals.
\<close>

theorem selectCardToDiscard_keeps_strong_suit:
  assumes "3 \<le> suitCount t0 hand"
  shows "\<exists>s. 3 \<le> suitCount s hand
     \<and> (\<forall>t. 3 \<le> suitCount t hand \<longrightarrow> suitTotal t hand \<le> suitTotal s hand)
     \<and> (list_ex (\<lambda>c. symbolOf c \<noteq> s) hand \<longrightarrow>
          (\<exists>i<length hand. selectCardToDiscard hand = Inr (Index (int i))
             \<and> symbolOf (hand ! i) \<noteq> s
             \<and> (\<forall>j<length hand. symbolOf (hand ! j) \<noteq> s \<longrightarrow>
                   valueOf (hand ! i) \<le> valueOf (hand ! j)
                   \<and> (j < i \<longrightarrow> valueOf (hand ! i) < valueOf (hand ! j)))))"
proof -
  from strongestSuit_greatest [OF assms] obtain s where
    st: "strongestSuit (groupBySuit hand) = Some s" and three: "3 \<le> suitCount s hand"
    and gr: "\<forall>t. 3 \<le> suitCount t hand \<longrightarrow> suitTotal t hand \<le> suitTotal s hand"
    by blast
  have "\<exists>i<length hand. selectCardToDiscard hand = Inr (Index (int i))
             \<and> symbolOf (hand ! i) \<noteq> s
             \<and> (\<forall>j<length hand. symbolOf (hand ! j) \<noteq> s \<longrightarrow>
                   valueOf (hand ! i) \<le> valueOf (hand ! j)
                   \<and> (j < i \<longrightarrow> valueOf (hand ! i) < valueOf (hand ! j)))"
    if off: "list_ex (\<lambda>c. symbolOf c \<noteq> s) hand"
  proof -
    from discardOutsideStrongest_first_lowest [OF st off] obtain i where
      i: "i < length hand" "discardOutsideStrongest hand (groupBySuit hand) = Some i"
      "symbolOf (hand ! i) \<noteq> s"
      "\<forall>j<length hand. symbolOf (hand ! j) \<noteq> s \<longrightarrow>
           valueOf (hand ! i) \<le> valueOf (hand ! j)
           \<and> (j < i \<longrightarrow> valueOf (hand ! i) < valueOf (hand ! j))"
      by blast
    from i(1) have "hand \<noteq> []" by auto
    then have "selectCardToDiscard hand = Inr (Index (int i))"
      by (simp add: selectCardToDiscard_def Let_def i(2))
    with i show ?thesis by blast
  qed
  with three gr show ?thesis by blast
qed

lemma threeSpadesAndTwo_facts:
  "suitCount SpadeSym threeSpadesAndTwo = 3"
  "list_ex (\<lambda>c. symbolOf c \<noteq> SpadeSym) threeSpadesAndTwo"
  "length threeSpadesAndTwo = 4"
  "map symbolOf threeSpadesAndTwo = [SpadeSym, SpadeSym, SpadeSym, HeartSym]"
  by (simp_all add: threeSpadesAndTwo_def suitCount_def example_cards_simps)

text \<open>
  The specification's example: on A, K, Q of spades and the 2 of hearts the answer is
  index 3, the 2 of hearts.
\<close>

theorem selectCardToDiscard_keeps_strong_suit_witness:
  "3 \<le> suitCount SpadeSym threeSpadesAndTwo
   \<and> list_ex (\<lambda>c. symbolOf c \<noteq> SpadeSym) threeSpadesAndTwo
   \<and> selectCardToDiscard threeSpadesAndTwo = Inr (Index 3)
   \<and> threeSpadesAndTwo ! 3 = mkCard hearts Two"
proof -
  from selectCardToDiscard_keeps_strong_suit [of SpadeSym threeSpadesAndTwo]
  obtain s where s: "3 \<le> suitCount s threeSpadesAndTwo"
    and sel: "list_ex (\<lambda>c. symbolOf c \<noteq> s) threeSpadesAndTwo \<longrightarrow>
          (\<exists>i<length threeSpadesAndTwo. selectCardToDiscard threeSpadesAndTwo = Inr (Index (int i))
             \<and> symbolOf (threeSpadesAndTwo ! i) \<noteq> s)"
    by (auto simp: threeSpadesAndTwo_facts)
  have "s = SpadeSym"
    using s by (cases s) (simp_all add: threeSpadesAndTwo_def suitCount_def example_cards_simps)
  with sel obtain i where i: "i < 4" "selectCardToDiscard threeSpadesAndTwo = Inr (Index (int i))"
    "symbolOf (threeSpadesAndTwo ! i) \<noteq> SpadeSym"
    by (auto simp: threeSpadesAndTwo_facts)
  from i(1) have "i = 0 \<or> i = 1 \<or> i = 2 \<or> i = 3" by arith
  with i(3) have "i = 3"
    by (auto simp: threeSpadesAndTwo_def example_cards_simps)
  with i(2) show ?thesis
    by (simp add: threeSpadesAndTwo_facts) (simp add: threeSpadesAndTwo_def)
qed

text \<open>
  C6 as stated fails on a hand of one suit: with A, K, Q, J of spades a suit has three
  or more cards, no card lies outside it, and the answer is index 1, the K of spades.
\<close>

theorem selectCardToDiscard_one_suit_counterexample:
  "3 \<le> suitCount SpadeSym fourSpades
   \<and> map symbolOf fourSpades = [SpadeSym, SpadeSym, SpadeSym, SpadeSym]
   \<and> selectCardToDiscard fourSpades = Inr (Index 1)"
proof -
  have "selectCardToDiscard fourSpades = Inr (Index 1)"
    by code_simp
  then show ?thesis
    by (simp add: fourSpades_def suitCount_def example_cards_simps)
qed

text \<open>
  C10. \<^verbatim>\<open>selectCardToDiscard\<close> returns for every hand: it never meets a
  \<^verbatim>\<open>TypeError\<close> and never returns \<^verbatim>\<open>undefined\<close>; it returns -1 exactly for the empty
  hand, and for any other hand an index \<open>k\<close> with \<open>0 \<le> k < hand.length\<close>.
\<close>

theorem selectCardToDiscard_valid_index:
  "(selectCardToDiscard hand = Inr (Index (- 1)) \<longleftrightarrow> hand = [])
   \<and> (hand \<noteq> [] \<longrightarrow> (\<exists>k<length hand. selectCardToDiscard hand = Inr (Index (int k))))"
proof (cases "hand = []")
  case True
  then show ?thesis by (simp add: selectCardToDiscard_def)
next
  case False
  then obtain k where k: "k < length hand" "selectCardToDiscard hand = Inr (Index (int k))"
    using selectCardToDiscard_range by blast
  have "int k \<noteq> - 1" by simp
  with k False show ?thesis by auto
qed

theorem selectCardToDiscard_valid_index_witness:
  "fourSuits \<noteq> [] \<and> length fourSuits = 4
   \<and> (\<exists>k<4. selectCardToDiscard fourSuits = Inr (Index (int k)))
   \<and> selectCardToDiscard fourSuits \<noteq> Inr (Index (- 1))
   \<and> selectCardToDiscard [] = Inr (Index (- 1))"
proof -
  have ne: "fourSuits \<noteq> []" and len: "length fourSuits = 4"
    by (simp_all add: fourSuits_def)
  from selectCardToDiscard_valid_index [of fourSuits] ne len
  have "\<exists>k<4. selectCardToDiscard fourSuits = Inr (Index (int k))"
    and "selectCardToDiscard fourSuits \<noteq> Inr (Index (- 1))"
    by auto
  moreover from selectCardToDiscard_valid_index [of "[]"]
  have "selectCardToDiscard [] = Inr (Index (- 1))" by simp
  ultimately show ?thesis using ne len by blast
qed

section \<open>The card count of a round\<close>

lemma drawCardForPlayer1_accepted:
  "drawCardForPlayer1 g = Inr g' \<Longrightarrow> \<not> player1HasDrawn g \<Longrightarrow> currentPlayerIndex g = 0
   \<Longrightarrow> \<not> isAnimating g \<Longrightarrow> deckContainer g > 0
   \<Longrightarrow> player1HasDrawn g' \<and> \<not> player1HasDiscarded g' \<and> currentPlayerIndex g' = 0
       \<and> \<not> isAnimating g'"
  by (auto simp: drawCardForPlayer1_def Let_def updateButtonStates_def disableAllButtons_def
      updateEndTurnButtonState_def updateKnockButtonState_def
      split: prod.splits option.splits if_splits)

lemma discardCard_returns: "\<exists>g'. discardCard c g = Inr g'"
  by (simp add: discardCard_def Let_def)

text \<open>
  C1 fails in the code. After the deal of the deck in built order the arrays hold 52 cards;
  Player 1 draws from the deck (still 52) and discards the 9 of spades: the card is
  pushed on \<^verbatim>\<open>gameState.discardPile\<close> and stays in \<^verbatim>\<open>gameState.players[0].hand\<close>, and the
  arrays hold 53.
\<close>

theorem player1_discard_card_count:
  "startGame (newGame (shuffle (\<lambda>i. i) buildCards)) = Inr dealt
   \<and> totalCards dealt = 52
   \<and> (\<exists>g1 g2. drawCardForPlayer1 dealt = Inr g1 \<and> totalCards g1 = 52
        \<and> discardCard (seen (mkCard spades Nine)) g1 = Inr g2 \<and> totalCards g2 = 53)"
proof -
  have start: "startGame (newGame (shuffle (\<lambda>i. i) buildCards)) = Inr dealt"
    by code_simp
  have t0: "totalCards dealt = 52"
    by (simp add: totalCards_def dealt_def buildCards_def suits_def ranks_def)
  obtain g1 where g1: "drawCardForPlayer1 dealt = Inr g1"
    using dealt_draw_ok by blast
  then have t1: "totalCards g1 = 52"
    using drawCardForPlayer1_total [of dealt g1] t0 by simp
  have f1: "player1HasDrawn g1 \<and> \<not> player1HasDiscarded g1 \<and> currentPlayerIndex g1 = 0
       \<and> \<not> isAnimating g1"
    using drawCardForPlayer1_accepted [OF g1] by (simp add: dealt_def)
  obtain g2 where g2: "discardCard (seen (mkCard spades Nine)) g1 = Inr g2"
    using discardCard_returns by blast
  then have "totalCards g2 = 53"
    using discardCard_total [of g1 "seen (mkCard spades Nine)" g2] f1 t1 by simp
  with start t0 g1 t1 g2 show ?thesis by blast
qed

text \<open>The same run, read as: the discard leaves one card more than the deal did.\<close>

theorem player1_discard_card_count_witness:
  "\<exists>g g1 g2. startGame (newGame (shuffle (\<lambda>i. i) buildCards)) = Inr g
     \<and> drawCardForPlayer1 g = Inr g1
     \<and> discardCard (seen (mkCard spades Nine)) g1 = Inr g2
     \<and> totalCards g1 = totalCards g
     \<and> totalCards g2 = Suc (totalCards g)"
  using player1_discard_card_count by auto

section \<open>The actions that keep the card count\<close>

lemma length_splice1: "i < length xs \<Longrightarrow> Suc (length (splice1 i xs)) = length xs"
  by (simp add: splice1_def)

text \<open>
  The discard of Player 2 keeps the count: the card leaves the hand array as it enters the
  discard pile.
\<close>

lemma player2_discardCard_total:
  assumes "player2_discardCard g = Inr g'"
  shows "totalCards g' = totalCards g"
proof (cases "players1_hand g = []")
  case True
  then have "selectCardToDiscard (players1_hand g) = Inr (Index (- 1))"
    by (simp add: selectCardToDiscard_def)
  with assms have "g' = g"
    by (auto simp: player2_discardCard_def split: if_splits)
  then show ?thesis by simp
next
  case False
  then obtain k where k: "k < length (players1_hand g)"
    "selectCardToDiscard (players1_hand g) = Inr (Index (int k))"
    using selectCardToDiscard_range by blast
  show ?thesis
  proof (cases "length (player2HandContainer g) \<le> 0")
    case True
    with assms show ?thesis by (simp add: player2_discardCard_def)
  next
    case c: False
    with assms k obtain cardSprite where
      "g' = g\<lparr>player2HandContainer := splice1 k (player2HandContainer g),
               discardPileContainer := discardPileContainer g + 1,
               players1_hand := splice1 k (players1_hand g),
               discardPile := discardPile g @ [cardSprite]\<rparr>"
      by (auto simp: player2_discardCard_def split: option.splits)
    then show ?thesis
      using length_splice1 [OF k(1)] by (simp add: totalCards_def)
  qed
qed

text \<open>The deal keeps the count, whatever the order of the deck.\<close>

lemma addCardToDiscardPileFromDeck_total:
  "addCardToDiscardPileFromDeck g = Inr g' \<Longrightarrow> totalCards g' = totalCards g"
  by (auto simp: addCardToDiscardPileFromDeck_def drawCard_def totalCards_def
      dest!: pop_length split: if_splits prod.splits option.splits)

lemma dealFrom_total:
  "dealFrom cardCount g = Inr g' \<Longrightarrow> totalCards g' = totalCards g"
proof (induction cardCount g arbitrary: g' rule: dealFrom.induct)
  case (1 cardCount g)
  show ?case
  proof (cases "cardCount < 6 \<and> deckContainer g > 0")
    case False
    with "1.prems" obtain g1 where
      "addCardToDiscardPileFromDeck
         (g\<lparr>pointsCalculator := updatePlayer2TotalPoints (player2HandContainer g)
              (updateTotalPoints (player1HandContainer g) (pointsCalculator g))\<rparr>) = Inr g1"
      and "totalCards g' = totalCards g1"
      by (subst (asm) dealFrom.simps) (auto simp: Let_def totalCards_def split: sum.splits)
    then show ?thesis
      using addCardToDiscardPileFromDeck_total by (fastforce simp: totalCards_def)
  next
    case True
    with "1.prems" obtain drawn rest where dc: "drawCard (deck g) = (Some drawn, rest)"
      by (subst (asm) dealFrom.simps) (auto split: prod.splits option.splits)
    then have len: "length (deck g) = Suc (length rest)"
      by (auto simp: drawCard_def dest: pop_length)
    define g1 where "g1 = g\<lparr>deck := rest, deckContainer := deckContainer g - 1\<rparr>"
    show ?thesis
    proof (cases "cardCount mod 2 = 0")
      case even: True
      define g2 where "g2 = g1\<lparr>players0_hand := players0_hand g1 @ [drawn\<lparr>visible := True\<rparr>],
                               player1HandContainer :=
                                 player1HandContainer g1 @ [drawn\<lparr>visible := True\<rparr>]\<rparr>"
      from "1.prems" True dc even have "dealFrom (cardCount + 1) g2 = Inr g'"
        by (subst (asm) dealFrom.simps) (simp add: Let_def g1_def g2_def)
      then have "totalCards g' = totalCards g2"
        using "1.IH"(1) [OF True dc [symmetric] refl g1_def even] by (simp add: g2_def)
      then show ?thesis
        using len by (simp add: g2_def g1_def totalCards_def)
    next
      case odd: False
      define g2 where "g2 = g1\<lparr>players1_hand := players1_hand g1 @ [drawn],
                               player2HandContainer := player2HandContainer g1 @ [drawn]\<rparr>"
      from "1.prems" True dc odd have "dealFrom (cardCount + 1) g2 = Inr g'"
        by (subst (asm) dealFrom.simps) (simp add: Let_def g1_def g2_def)
      then have "totalCards g' = totalCards g2"
        using "1.IH"(2) [OF True dc [symmetric] refl g1_def odd] by (simp add: g2_def)
      then show ?thesis
        using len by (simp add: g2_def g1_def totalCards_def)
    qed
  qed
qed

lemma startGame_total:
  "startGame g = Inr g' \<Longrightarrow> totalCards g' = totalCards g"
  by (auto simp: startGame_def dealCardsOneByOne_def Let_def disableAllButtons_def
      totalCards_def dest!: dealFrom_total)

lemma startGame_newGame_total:
  "startGame (newGame d) = Inr g' \<Longrightarrow> totalCards g' = length d"
  by (drule startGame_total) (simp add: totalCards_def newGame_def)

section \<open>Player 1's hand container is empty only before the deal\<close>

text \<open>
  Before the deal the container is empty and the stored scores are the 0 of the
  constructor. The deal of any deck leaves three cards in it, and the draws, the discard
  and the end of turn of Player 1, and the discard of Player 2, keep \<^const>\<open>handHeld\<close>:
  \<^verbatim>\<open>updateTotalPoints\<close> meets an empty hand only while the stored score is 0.
\<close>

lemma updateButtonStates_hand:
  "player1HandContainer (updateButtonStates g) = player1HandContainer g"
  by (simp add: updateButtonStates_def updateEndTurnButtonState_def updateKnockButtonState_def)

lemma dealFrom_hand:
  "dealFrom cardCount g = Inr g' \<Longrightarrow> deckContainer g = Suc (length (deck g))
   \<Longrightarrow> length (player1HandContainer g')
         = length (player1HandContainer g) + (3 - (cardCount + 1) div 2)
       \<and> player1HasDrawn g' = player1HasDrawn g"
proof (induction cardCount g arbitrary: g' rule: dealFrom.induct)
  case (1 cardCount g)
  show ?case
  proof (cases "cardCount < 6")
    case False
    with "1.prems"(1) show ?thesis
      by (subst (asm) dealFrom.simps)
        (auto simp: Let_def addCardToDiscardPileFromDeck_def
          split: sum.splits if_splits prod.splits option.splits)
  next
    case True
    with "1.prems"(2) have guard: "cardCount < 6 \<and> deckContainer g > 0" by simp
    with "1.prems"(1) obtain drawn rest where dc: "drawCard (deck g) = (Some drawn, rest)"
      by (subst (asm) dealFrom.simps) (auto split: prod.splits option.splits)
    then have len: "length (deck g) = Suc (length rest)"
      by (auto simp: drawCard_def dest: pop_length)
    define g1 where "g1 = g\<lparr>deck := rest, deckContainer := deckContainer g - 1\<rparr>"
    show ?thesis
    proof (cases "cardCount mod 2 = 0")
      case even: True
      define g2 where "g2 = g1\<lparr>players0_hand := players0_hand g1 @ [drawn\<lparr>visible := True\<rparr>],
                               player1HandContainer :=
                                 player1HandContainer g1 @ [drawn\<lparr>visible := True\<rparr>]\<rparr>"
      from "1.prems"(1) guard dc even have d: "dealFrom (cardCount + 1) g2 = Inr g'"
        by (subst (asm) dealFrom.simps) (simp add: Let_def g1_def g2_def)
      have "deckContainer g2 = Suc (length (deck g2))"
        using "1.prems"(2) len by (simp add: g2_def g1_def)
      with d have "length (player1HandContainer g')
          = length (player1HandContainer g2) + (3 - (cardCount + 1 + 1) div 2)
        \<and> player1HasDrawn g' = player1HasDrawn g2"
        using "1.IH"(1) [OF guard dc [symmetric] refl g1_def even] by (simp add: g2_def)
      moreover have "Suc (3 - (cardCount + 1 + 1) div 2) = 3 - (cardCount + 1) div 2"
        using True even by presburger
      ultimately show ?thesis by (simp add: g2_def g1_def)
    next
      case odd: False
      define g2 where "g2 = g1\<lparr>players1_hand := players1_hand g1 @ [drawn],
                               player2HandContainer := player2HandContainer g1 @ [drawn]\<rparr>"
      from "1.prems"(1) guard dc odd have d: "dealFrom (cardCount + 1) g2 = Inr g'"
        by (subst (asm) dealFrom.simps) (simp add: Let_def g1_def g2_def)
      have "deckContainer g2 = Suc (length (deck g2))"
        using "1.prems"(2) len by (simp add: g2_def g1_def)
      with d have "length (player1HandContainer g')
          = length (player1HandContainer g2) + (3 - (cardCount + 1 + 1) div 2)
        \<and> player1HasDrawn g' = player1HasDrawn g2"
        using "1.IH"(2) [OF guard dc [symmetric] refl g1_def odd] by (simp add: g2_def)
      moreover have "3 - (cardCount + 1 + 1) div 2 = 3 - (cardCount + 1) div 2"
        using True odd by presburger
      ultimately show ?thesis by (simp add: g2_def g1_def)
    qed
  qed
qed

lemma newGame_empty_hand:
  "player1HandContainer (newGame d) = []"
  "player1points (pointsCalculator (newGame d)) = Num 0"
  "player2HandContainer (newGame d) = []"
  "player2points (pointsCalculator (newGame d)) = Num 0"
  by (simp_all add: newGame_def new_PointsCalculator_def)

lemma startGame_handHeld:
  assumes "startGame (newGame d) = Inr g"
  shows "handHeld g"
proof -
  let ?g0 = "(disableAllButtons (newGame d))\<lparr>isDealingCards := True, isAnimating := True,
      currentPlayerIndex := 0, player1HasDrawn := False, player1HasDiscarded := False,
      player2HasDrawn := False, player2HasDiscarded := False,
      pointsCalculator := updateTotalPoints [] new_PointsCalculator,
      drawCardActionButton := False, drawFromPileButton := False,
      knockButton := False, endTurnButton := False\<rparr>"
  from assms have "dealFrom 0 ?g0 = Inr g"
    by (simp add: startGame_def dealCardsOneByOne_def Let_def newGame_def disableAllButtons_def)
  moreover have "deckContainer ?g0 = Suc (length (deck ?g0))"
    by (simp add: newGame_def disableAllButtons_def)
  ultimately have "length (player1HandContainer g) = length (player1HandContainer ?g0) + (3 - (0 + 1) div 2)
       \<and> player1HasDrawn g = player1HasDrawn ?g0"
    by (rule dealFrom_hand)
  then show ?thesis
    by (simp add: handHeld_def newGame_def disableAllButtons_def)
qed

lemma drawCardForPlayer1_handHeld:
  "handHeld g \<Longrightarrow> drawCardForPlayer1 g = Inr g' \<Longrightarrow> handHeld g'"
  by (auto simp: drawCardForPlayer1_def Let_def handHeld_def disableAllButtons_def
      updateButtonStates_hand updateButtonStates_fields
      split: if_splits prod.splits option.splits)

lemma drawCardFromDiscardPile_handHeld:
  "handHeld g \<Longrightarrow> drawCardFromDiscardPile g = Inr g' \<Longrightarrow> handHeld g'"
  by (auto simp: drawCardFromDiscardPile_def Let_def handHeld_def disableAllButtons_def
      updateButtonStates_hand updateButtonStates_fields
      split: if_splits prod.splits option.splits)

lemma length_remove1_ge: "length xs \<le> Suc (length (remove1 x xs))"
  by (induction xs) auto

lemma discardCard_handHeld:
  "handHeld g \<Longrightarrow> discardCard c g = Inr g' \<Longrightarrow> handHeld g'"
  using length_remove1_ge [of "player1HandContainer g" c]
  by (auto simp: discardCard_def Let_def handHeld_def disableAllButtons_def
      updateButtonStates_hand updateButtonStates_fields split: if_splits)

lemma endTurn_handHeld: "handHeld g \<Longrightarrow> handHeld (endTurn g)"
  by (simp add: endTurn_def endTurnHandler_def handHeld_def disableAllButtons_def)

lemma player2_discardCard_handHeld:
  "handHeld g \<Longrightarrow> player2_discardCard g = Inr g' \<Longrightarrow> handHeld g'"
  by (auto simp: player2_discardCard_def handHeld_def
      split: if_splits sum.splits jsindex.splits option.splits)

lemma handHeld_not_empty: "handHeld g \<Longrightarrow> player1HandContainer g \<noteq> []"
  by (auto simp: handHeld_def)

end
